theory Spec2Isabelle
  imports Complex_Main
begin

section \<open>Data model of snd\_fmod.c\<close>

text \<open>
  The sound layer of the engine, embedded function by function. An array is a function
  from its index, and an access checks the index against the array's size where the
  source does not guard it. C \<open>float\<close> values are
  modelled as real numbers (rounding, infinities and NaN are outside the model); C \<open>int\<close>
  values as \<open>int\<close>, \<open>unsigned int\<close> values as \<open>nat\<close> with the 32-bit wrap-around written
  out where the source multiplies; the 64-bit DSP clock as \<open>nat\<close>. A pointer is an
  \<open>option\<close> (\<open>None\<close> is \<open>NULL\<close>). A division by zero, the division of the least \<open>int\<close> by
  -1, an array access out of bounds and a use of freed zone memory are a \<open>fault\<close>. A
  product of two \<open>int\<close>s wraps at 32 bits, which is what the compiled program computes
  (the C standard leaves signed overflow undefined).
\<close>

datatype fault = DivideByZero | SignedOverflow | OutOfBounds | BadPointer

type_synonym vec3 = "real \<times> real \<times> real"

datatype FMOD_RESULT = FMOD_OK | FMOD_ERR nat

datatype FMOD_MODE = FMOD_LOOP_OFF | FMOD_LOOP_NORMAL

text \<open>A \<open>soundslot_t *\<close>: into the static grid \<open>entsounds\<close>, or into zone memory.\<close>

datatype slot_ptr = EntSlot int int | ZoneSlot nat

record soundslot_t =
  zone :: bool
  channel :: "nat option"
  dist_mult :: real

text \<open>The fields of \<open>sfx_t\<close> that this file reads and writes.\<close>

record sfx_t =
  name :: string
  sound :: "nat option"
  loopstart :: int
  loopend :: int
  length_ms :: nat

text \<open>The fields of \<open>wavinfo_t\<close> read by \<open>S_LoadSound\<close>.\<close>

record wavinfo_t =
  wav_channels :: int
  wav_loopstart :: int
  wav_rate :: int
  wav_samples :: int

text \<open>
  What the file system and the decoder answer for one file name: the result of
  \<open>COM_LoadStackFile\<close> followed by \<open>GetWavinfo\<close>, \<open>FMOD_System_CreateSound\<close> and
  \<open>FMOD_Sound_GetLength\<close> on its bytes.
\<close>

record soundfile =
  info :: wavinfo_t
  create_result :: FMOD_RESULT
  sound_length :: nat

text \<open>
  A voice inside the audio engine (an \<open>FMOD_CHANNEL\<close>), with the attributes this file
  sets through the engine's interface.
\<close>

record fmod_channel =
  ch_sound :: nat
  ch_paused :: bool
  ch_position :: vec3
  ch_volume :: real
  ch_mode :: FMOD_MODE
  ch_looppoints :: "(int \<times> int) option"
  ch_level3d :: real
  ch_priority :: int
  ch_userdata :: "slot_ptr option"
  ch_callback :: bool
  ch_fade :: "(nat \<times> real) option"
  ch_delay :: "nat option"

text \<open>
  Compile-time constants of headers that are not part of the two source files; every
  function that uses one takes them as the parameter \<open>k\<close>.
\<close>

record constants =
  MAX_CHANNELS :: int
  NUM_AMBIENTS :: nat
  AMBIENT_WATER :: nat
  AMBIENT_SKY :: nat
  FMOD_VERSION :: nat

text \<open>
  The whole state: the globals of this file, the globals of the rest of the engine that
  it reads, zone memory, the console, the voices of the audio engine, and what the
  environment will answer (\<open>rand\<close>, the result of the next play request, the voices that
  end during the next engine update, the files on disk, the sound registry).
\<close>

record snd =
  fmod_system :: bool
  sound_started :: bool
  fmod_samplerate :: int
  old_volume :: real
  sfx_channelGroup :: bool
  listener_origin :: vec3
  entsounds :: "int \<Rightarrow> int \<Rightarrow> soundslot_t"
  ambients :: "nat \<Rightarrow> nat option"
  sfxThisFrame :: "nat \<Rightarrow> nat option"
  numSfxThisFrame :: int
  known_sfx :: "nat \<Rightarrow> sfx_t"
  num_sfx :: nat
  nosound :: real
  ambient_level :: real
  ambient_fade :: real
  sfxvolume :: real
  host_frametime :: real
  viewentity :: int
  connected :: bool
  Mod_PointInLeaf :: "vec3 \<Rightarrow> (nat \<Rightarrow> nat) option"
  zone_heap :: "nat \<Rightarrow> soundslot_t option"
  zone_next :: nat
  console :: "string list"
  fmod_channels :: "nat \<Rightarrow> fmod_channel option"
  next_channel :: nat
  next_sound :: nat
  dspclock :: nat
  play_results :: "nat \<Rightarrow> FMOD_RESULT"
  play_calls :: nat
  rand_values :: "nat \<Rightarrow> nat"
  rand_calls :: nat
  ending :: "nat \<Rightarrow> nat list"
  update_calls :: nat
  sound_files :: "string \<Rightarrow> soundfile option"
  S_PrecacheSound :: "string \<Rightarrow> nat option"

text \<open>
  \<open>connected\<close> stands for the test of \<open>S_UpdateAmbientSounds\<close> that the client is
  connected and the world model has nodes; \<open>Mod_PointInLeaf\<close> yields the ambient
  levels of the leaf at a point. The voices of the engine are those of the channel group
  of this file; a handle below \<open>next_channel\<close> that is no voice any more is a stale
  handle. \<open>dspclock\<close> is what the engine's DSP clock reads; it moves between calls,
  not during one. The music player of the second source file has a channel group of its
  own and shares no state with these functions except \<open>fmod_system\<close>.
\<close>

definition sound_nominal_clip_dist :: real where
  "sound_nominal_clip_dist = 1000"

section \<open>The environment: console, libc, zone memory, the audio engine\<close>

text \<open>
  \<open>Con_Printf\<close> appends the format string (without its arguments and newline).
  \<open>Con_DPrintf\<close> prints for developers only; its lines are not kept.
\<close>

definition Con_Printf :: "string \<Rightarrow> snd \<Rightarrow> snd" where
  "Con_Printf msg st = st\<lparr>console := console st @ [msg]\<rparr>"

definition Con_DPrintf :: "string \<Rightarrow> snd \<Rightarrow> snd" where
  "Con_DPrintf msg st = st"

text \<open>\<open>rand()\<close>: the next value of the environment's sequence.\<close>

definition rand :: "snd \<Rightarrow> nat \<times> snd" where
  "rand st = (rand_values st (rand_calls st), st\<lparr>rand_calls := rand_calls st + 1\<rparr>)"

text \<open>
  \<open>Z_Malloc\<close> returns a fresh zero-filled block (it ends the program instead of
  returning \<open>NULL\<close>); \<open>Z_Free\<close> releases a block of zone memory.
\<close>

definition Z_Malloc :: "snd \<Rightarrow> slot_ptr \<times> snd" where
  "Z_Malloc st =
     (ZoneSlot (zone_next st),
      st\<lparr>zone_heap := (zone_heap st)(zone_next st \<mapsto> \<lparr>zone = False, channel = None, dist_mult = 0\<rparr>),
         zone_next := zone_next st + 1\<rparr>)"

definition Z_Free :: "slot_ptr \<Rightarrow> snd \<Rightarrow> fault + snd" where
  "Z_Free p st =
     (case p of
        EntSlot e c \<Rightarrow> Inl BadPointer
      | ZoneSlot a \<Rightarrow>
          (case zone_heap st a of
             None \<Rightarrow> Inl BadPointer
           | Some s \<Rightarrow> Inr (st\<lparr>zone_heap := (zone_heap st)(a := None)\<rparr>)))"

text \<open>Reading and writing a slot through a pointer.\<close>

definition slot_get :: "snd \<Rightarrow> slot_ptr \<Rightarrow> soundslot_t option" where
  "slot_get st p =
     (case p of EntSlot e c \<Rightarrow> Some (entsounds st e c) | ZoneSlot a \<Rightarrow> zone_heap st a)"

definition slot_upd :: "slot_ptr \<Rightarrow> (soundslot_t \<Rightarrow> soundslot_t) \<Rightarrow> snd \<Rightarrow> snd" where
  "slot_upd p f st =
     (case p of
        EntSlot e c \<Rightarrow>
          st\<lparr>entsounds := (entsounds st)(e := (entsounds st e)(c := f (entsounds st e c)))\<rparr>
      | ZoneSlot a \<Rightarrow>
          (case zone_heap st a of
             None \<Rightarrow> st
           | Some s \<Rightarrow> st\<lparr>zone_heap := (zone_heap st)(a \<mapsto> f s)\<rparr>))"

text \<open>
  The engine's channel interface. A call on a handle that is no longer a voice returns
  an error code, which the source ignores, and changes nothing.
\<close>

definition chan_upd :: "nat \<Rightarrow> (fmod_channel \<Rightarrow> fmod_channel) \<Rightarrow> snd \<Rightarrow> snd" where
  "chan_upd h f st =
     (case fmod_channels st h of
        None \<Rightarrow> st
      | Some c \<Rightarrow> st\<lparr>fmod_channels := (fmod_channels st)(h \<mapsto> f c)\<rparr>)"

definition FMOD_Channel_Set3DAttributes :: "nat \<Rightarrow> vec3 \<Rightarrow> snd \<Rightarrow> snd" where
  "FMOD_Channel_Set3DAttributes h pos = chan_upd h (\<lambda>c. c\<lparr>ch_position := pos\<rparr>)"

definition FMOD_Channel_SetVolume :: "nat \<Rightarrow> real \<Rightarrow> snd \<Rightarrow> snd" where
  "FMOD_Channel_SetVolume h v = chan_upd h (\<lambda>c. c\<lparr>ch_volume := v\<rparr>)"

definition FMOD_Channel_GetVolume :: "snd \<Rightarrow> nat \<Rightarrow> real option" where
  "FMOD_Channel_GetVolume st h = map_option ch_volume (fmod_channels st h)"

definition FMOD_Channel_SetMode :: "nat \<Rightarrow> FMOD_MODE \<Rightarrow> snd \<Rightarrow> snd" where
  "FMOD_Channel_SetMode h m = chan_upd h (\<lambda>c. c\<lparr>ch_mode := m\<rparr>)"

definition FMOD_Channel_SetLoopPoints :: "nat \<Rightarrow> int \<Rightarrow> int \<Rightarrow> snd \<Rightarrow> snd" where
  "FMOD_Channel_SetLoopPoints h a b = chan_upd h (\<lambda>c. c\<lparr>ch_looppoints := Some (a, b)\<rparr>)"

definition FMOD_Channel_Set3DLevel :: "nat \<Rightarrow> real \<Rightarrow> snd \<Rightarrow> snd" where
  "FMOD_Channel_Set3DLevel h l = chan_upd h (\<lambda>c. c\<lparr>ch_level3d := l\<rparr>)"

definition FMOD_Channel_SetPriority :: "nat \<Rightarrow> int \<Rightarrow> snd \<Rightarrow> snd" where
  "FMOD_Channel_SetPriority h p = chan_upd h (\<lambda>c. c\<lparr>ch_priority := p\<rparr>)"

definition FMOD_Channel_SetPaused :: "nat \<Rightarrow> bool \<Rightarrow> snd \<Rightarrow> snd" where
  "FMOD_Channel_SetPaused h p = chan_upd h (\<lambda>c. c\<lparr>ch_paused := p\<rparr>)"

definition FMOD_Channel_SetUserData :: "nat \<Rightarrow> slot_ptr option \<Rightarrow> snd \<Rightarrow> snd" where
  "FMOD_Channel_SetUserData h u = chan_upd h (\<lambda>c. c\<lparr>ch_userdata := u\<rparr>)"

definition FMOD_Channel_GetUserData :: "snd \<Rightarrow> nat \<Rightarrow> slot_ptr option" where
  "FMOD_Channel_GetUserData st h =
     (case fmod_channels st h of None \<Rightarrow> None | Some c \<Rightarrow> ch_userdata c)"

definition FMOD_Channel_SetCallback :: "nat \<Rightarrow> snd \<Rightarrow> snd" where
  "FMOD_Channel_SetCallback h = chan_upd h (\<lambda>c. c\<lparr>ch_callback := True\<rparr>)"

definition FMOD_Channel_SetFadePointRamp :: "nat \<Rightarrow> nat \<Rightarrow> real \<Rightarrow> snd \<Rightarrow> snd" where
  "FMOD_Channel_SetFadePointRamp h clock v = chan_upd h (\<lambda>c. c\<lparr>ch_fade := Some (clock, v)\<rparr>)"

definition FMOD_Channel_SetDelay :: "nat \<Rightarrow> nat \<Rightarrow> snd \<Rightarrow> snd" where
  "FMOD_Channel_SetDelay h clock = chan_upd h (\<lambda>c. c\<lparr>ch_delay := Some clock\<rparr>)"

definition FMOD_ChannelGroup_GetDSPClock :: "snd \<Rightarrow> nat" where
  "FMOD_ChannelGroup_GetDSPClock st = dspclock st"

text \<open>
  \<open>FMOD_System_PlaySound\<close>: the environment decides whether the engine can start a
  voice; a started voice gets a handle that no earlier voice had, and the engine's
  defaults.
\<close>

definition FMOD_System_PlaySound :: "snd \<Rightarrow> nat \<Rightarrow> bool \<Rightarrow> FMOD_RESULT \<times> nat \<times> snd" where
  "FMOD_System_PlaySound st s paused =
     (let result = play_results st (play_calls st);
          st1 = st\<lparr>play_calls := play_calls st + 1\<rparr>;
          h = next_channel st
      in if result \<noteq> FMOD_OK then (result, h, st1)
         else (FMOD_OK, h,
               st1\<lparr>fmod_channels := (fmod_channels st)(h \<mapsto>
                      \<lparr>ch_sound = s, ch_paused = paused, ch_position = (0, 0, 0),
                       ch_volume = 1, ch_mode = FMOD_LOOP_OFF, ch_looppoints = None,
                       ch_level3d = 1, ch_priority = 128, ch_userdata = None,
                       ch_callback = False, ch_fade = None, ch_delay = None\<rparr>),
                    next_channel := h + 1\<rparr>))"

text \<open>
  The end of a voice: the engine invokes the voice's callback, then the handle is no
  longer a voice. \<open>SND_FMOD_Callback\<close> is the callback this file registers; its
  first argument says whether the notification is the end of a channel.
\<close>

definition SND_FMOD_Callback :: "snd \<Rightarrow> nat \<Rightarrow> bool \<Rightarrow> fault + snd" where
  "SND_FMOD_Callback st channelcontrol channel_end =
     (if \<not> channel_end then Inr st
      else case FMOD_Channel_GetUserData st channelcontrol of
             None \<Rightarrow> Inr st
           | Some soundslot \<Rightarrow>
               (case slot_get st soundslot of
                  None \<Rightarrow> Inl BadPointer
                | Some s \<Rightarrow> if zone s then Z_Free soundslot st else Inr st))"

fun end_channels :: "nat list \<Rightarrow> snd \<Rightarrow> fault + snd" where
  "end_channels [] st = Inr st"
| "end_channels (h # hs) st =
     (case fmod_channels st h of
        None \<Rightarrow> end_channels hs st
      | Some c \<Rightarrow>
          (case (if ch_callback c then SND_FMOD_Callback st h True else Inr st) of
             Inl e \<Rightarrow> Inl e
           | Inr st1 \<Rightarrow> end_channels hs (st1\<lparr>fmod_channels := (fmod_channels st1)(h := None)\<rparr>)))"

definition FMOD_ChannelGroup_Stop :: "snd \<Rightarrow> fault + snd" where
  "FMOD_ChannelGroup_Stop st =
     (if \<not> sfx_channelGroup st then Inr st else end_channels [0..<next_channel st] st)"

definition FMOD_System_Update :: "snd \<Rightarrow> fault + snd" where
  "FMOD_System_Update st =
     end_channels (ending st (update_calls st)) (st\<lparr>update_calls := update_calls st + 1\<rparr>)"

section \<open>The functions of snd\_fmod.c\<close>

text \<open>
  What the engine answers to each call of \<open>S_Startup\<close>, in the order of the calls.
  A successful \<open>FMOD_System_Create\<close> stores the engine in \<open>fmod_system\<close>; the
  minimum and maximum distance of the group and the registration of the rolloff
  callback stay inside the engine.
\<close>

record fmod_startup =
  System_Create :: FMOD_RESULT
  System_GetVersion :: FMOD_RESULT
  version :: nat
  System_SetSoftwareChannels :: FMOD_RESULT
  System_Init :: FMOD_RESULT
  System_GetDriver :: FMOD_RESULT
  System_GetDriverInfo :: FMOD_RESULT
  driver_samplerate :: int
  System_CreateChannelGroup :: FMOD_RESULT

definition S_Startup :: "constants \<Rightarrow> fmod_startup \<Rightarrow> snd \<Rightarrow> snd" where
  "S_Startup k env st =
     (if System_Create env \<noteq> FMOD_OK then Con_Printf ''Failed to create FMOD System: %s'' st
      else let st = st\<lparr>fmod_system := True\<rparr> in
      if System_GetVersion env \<noteq> FMOD_OK
      then Con_Printf ''Failed to retrieve FMOD version: %s'' st
      else if version env < FMOD_VERSION k
      then Con_Printf ''Incorrect FMOD library version, expected: 0x%x, found: 0x%x'' st
      else if System_SetSoftwareChannels env \<noteq> FMOD_OK
      then Con_Printf ''Failed to set number of FMOD software channels: %s'' st
      else if System_Init env \<noteq> FMOD_OK
      then Con_Printf ''Failed to initialize FMOD System: %s'' st
      else if System_GetDriver env \<noteq> FMOD_OK
      then Con_Printf ''Failed to retrieve selected FMOD driver: %s'' st
      else if System_GetDriverInfo env \<noteq> FMOD_OK
      then Con_Printf ''Failed to retrieve FMOD driver info: %s'' st
      else let st = st\<lparr>fmod_samplerate := driver_samplerate env\<rparr>;
               st = Con_Printf ''FMOD version %01x.%02x.%02x, driver '%s', %s speaker mode, %d Hz, %d channels'' st in
      if System_CreateChannelGroup env \<noteq> FMOD_OK
      then Con_Printf ''Failed to create FMOD SFX channel group: %s'' st
      else st\<lparr>sfx_channelGroup := True,
              entsounds := (\<lambda>e c. \<lparr>zone = False, channel = None, dist_mult = 0\<rparr>),
              sfxThisFrame := (\<lambda>i. None),
              numSfxThisFrame := 0,
              sound_started := True\<rparr>)"

text \<open>
  \<open>SND_GetDelay\<close>: \<open>delay\<close> is an \<open>unsigned int\<close>; the product with the sample rate
  (converted to \<open>unsigned int\<close>) wraps at 32 bits before the division.
\<close>

definition SND_GetDelay :: "snd \<Rightarrow> nat \<Rightarrow> real \<Rightarrow> nat \<times> snd" where
  "SND_GetDelay st sfx maxseconds =
     (let delay = nat \<lfloor>maxseconds * 1000\<rfloor>;
          delay = (if delay > length_ms (known_sfx st sfx) then length_ms (known_sfx st sfx) else delay)
      in case (if delay > 0 then (case rand st of (r, st1) \<Rightarrow> (r mod delay, st1)) else (delay, st)) of
           (delay, st1) \<Rightarrow>
             ((delay * nat (fmod_samplerate st1 mod 2 ^ 32)) mod 2 ^ 32 div 1000, st1))"

text \<open>
  \<open>SND_FMOD_Attenuation\<close>, the rolloff callback: the user data of the voice is a
  pointer to its slot. Reading through a pointer to freed zone memory is a fault.
\<close>

definition SND_FMOD_Attenuation :: "snd \<Rightarrow> nat \<Rightarrow> real \<Rightarrow> fault + real" where
  "SND_FMOD_Attenuation st channelcontrol distance =
     (case FMOD_Channel_GetUserData st channelcontrol of
        None \<Rightarrow> Inr 1
      | Some userdata \<Rightarrow>
          (case slot_get st userdata of
             None \<Rightarrow> Inl BadPointer
           | Some soundslot \<Rightarrow>
               (let scale = 1 - (distance * dist_mult soundslot)
                in Inr (if scale < 0 then 0 else scale))))"

definition SND_FMOD_SetChannelAttributes :: "nat \<Rightarrow> nat \<Rightarrow> vec3 \<Rightarrow> real \<Rightarrow> snd \<Rightarrow> snd" where
  "SND_FMOD_SetChannelAttributes chan sfx origin vol st =
     (let position = (case origin of (a, b, c) \<Rightarrow> (a, c, b));
          st = FMOD_Channel_Set3DAttributes chan position st;
          st = FMOD_Channel_SetVolume chan vol st
      in if loopstart (known_sfx st sfx) \<ge> 0
         then FMOD_Channel_SetLoopPoints chan (loopstart (known_sfx st sfx)) (loopend (known_sfx st sfx))
                (FMOD_Channel_SetMode chan FMOD_LOOP_NORMAL st)
         else FMOD_Channel_SetMode chan FMOD_LOOP_OFF st)"

definition SND_PickSoundSlot :: "constants \<Rightarrow> snd \<Rightarrow> int \<Rightarrow> int \<Rightarrow> slot_ptr \<times> snd" where
  "SND_PickSoundSlot k st entnum entchannel =
     (if entnum < 0 \<or> entnum \<ge> MAX_CHANNELS k \<or> entchannel = 0 \<or> entchannel > 7
      then (case Z_Malloc st of (slot, st1) \<Rightarrow> (slot, slot_upd slot (\<lambda>s. s\<lparr>zone := True\<rparr>) st1))
      else let entchannel = (if entchannel < 0 then 0 else entchannel);
               slot = EntSlot entnum entchannel;
               st1 = (case channel (entsounds st entnum entchannel) of
                        None \<Rightarrow> st
                      | Some old \<Rightarrow>
                          (let clock = FMOD_ChannelGroup_GetDSPClock st;
                               st = FMOD_Channel_SetFadePointRamp old (clock + 64) 0 st;
                               st = FMOD_Channel_SetMode old FMOD_LOOP_OFF st
                           in slot_upd slot (\<lambda>s. s\<lparr>channel := None\<rparr>) st))
           in (slot, slot_upd slot (\<lambda>s. s\<lparr>zone := False\<rparr>) st1))"

text \<open>
  C's integer division, which truncates towards zero, and the value of an \<open>int\<close>
  expression whose mathematical value is \<open>x\<close>: the representative of \<open>x\<close> modulo
  \<open>2 ^ 32\<close> between \<open>- 2 ^ 31\<close> and \<open>2 ^ 31 - 1\<close>.
\<close>

definition c_div :: "int \<Rightarrow> int \<Rightarrow> int" where
  "c_div a b = sgn a * sgn b * (\<bar>a\<bar> div \<bar>b\<bar>)"

definition wrap_int :: "int \<Rightarrow> int" where
  "wrap_int x = (x + 2147483648) mod 4294967296 - 2147483648"

text \<open>
  \<open>S_LoadSound\<close>. The name buffer holds 256 bytes, so the name is cut at 255
  characters. Its return value is always \<open>NULL\<close> and is left out. The loop points are
  computed in \<open>int\<close>: \<open>info.loopstart * 1000\<close> and \<open>info.samples * 1000\<close> wrap before
  the division by the sample rate, so a loop start of 2147484 samples or more can come
  out negative.
\<close>

definition S_LoadSound :: "snd \<Rightarrow> nat \<Rightarrow> fault + snd" where
  "S_LoadSound st s =
     (if \<not> fmod_system st then Inr st
      else if sound (known_sfx st s) \<noteq> None then Inr st
      else let namebuffer = take 255 (''sound/'' @ name (known_sfx st s)) in
      case sound_files st namebuffer of
        None \<Rightarrow> Inr (Con_Printf ''Couldn't load %s'' st)
      | Some f \<Rightarrow>
          if wav_channels (info f) = 0 then Inr (Con_Printf ''Invalid WAV file: %s'' st)
          else if create_result f \<noteq> FMOD_OK
          then Inr (Con_Printf ''Failed to create FMOD sound: %s'' st)
          else if wav_loopstart (info f) \<ge> 0 \<and> wav_rate (info f) = 0 then Inl DivideByZero
          else if wav_loopstart (info f) \<ge> 0 \<and> wav_rate (info f) = - 1
                  \<and> (wrap_int (wav_loopstart (info f) * 1000) = - 2147483648
                       \<or> wrap_int (wav_samples (info f) * 1000) = - 2147483648)
          then Inl SignedOverflow
          else
            let x = (known_sfx st s)\<lparr>sound := Some (next_sound st)\<rparr>;
                x = (if wav_loopstart (info f) \<ge> 0
                     then x\<lparr>loopstart := c_div (wrap_int (wav_loopstart (info f) * 1000))
                                           (wav_rate (info f)),
                            loopend := c_div (wrap_int (wav_samples (info f) * 1000))
                                         (wav_rate (info f))\<rparr>
                     else x\<lparr>loopstart := -1, loopend := -1\<rparr>);
                x = x\<lparr>length_ms := sound_length f\<rparr>
            in Inr (st\<lparr>known_sfx := (known_sfx st)(s := x), next_sound := next_sound st + 1\<rparr>))"

subsection \<open>Ambient sounds\<close>

definition SND_StartAmbientSound :: "snd \<Rightarrow> string \<Rightarrow> fault + (nat option \<times> snd)" where
  "SND_StartAmbientSound st samplename =
     (case S_PrecacheSound st samplename of
        None \<Rightarrow> Inr (None, st)
      | Some sfx \<Rightarrow>
          (case S_LoadSound st sfx of
             Inl e \<Rightarrow> Inl e
           | Inr st1 \<Rightarrow>
               (case sound (known_sfx st1 sfx) of
                  None \<Rightarrow> Inr (None, st1)
                | Some s \<Rightarrow>
                    (case FMOD_System_PlaySound st1 s True of
                       (result, chan, st2) \<Rightarrow>
                         if result \<noteq> FMOD_OK
                         then Inr (None, Con_Printf ''Failed to play ambient FMOD sound: %s'' st2)
                         else Inr (Some chan,
                                   FMOD_Channel_SetPaused chan False
                                     (FMOD_Channel_Set3DLevel chan 0
                                       (SND_FMOD_SetChannelAttributes chan sfx (0, 0, 0) 0 st2)))))))"

definition SND_StartAmbientSounds :: "constants \<Rightarrow> snd \<Rightarrow> fault + snd" where
  "SND_StartAmbientSounds k st =
     (let st = st\<lparr>ambients := (\<lambda>i. None)\<rparr> in
      case SND_StartAmbientSound st ''ambience/water1.wav'' of
        Inl e \<Rightarrow> Inl e
      | Inr (water, st1) \<Rightarrow>
          (let st1 = st1\<lparr>ambients := (ambients st1)(AMBIENT_WATER k := water)\<rparr> in
           case SND_StartAmbientSound st1 ''ambience/wind2.wav'' of
             Inl e \<Rightarrow> Inl e
           | Inr (sky, st2) \<Rightarrow> Inr (st2\<lparr>ambients := (ambients st2)(AMBIENT_SKY k := sky)\<rparr>)))"

text \<open>
  The volume arithmetic of the loop of \<open>S_UpdateAmbientSounds\<close> (the lines from the
  computation of \<open>vol\<close> to the last assignment of \<open>channel_vol\<close>), for one channel whose
  region level is \<open>lvl\<close> and whose current volume is \<open>channel_vol\<close>.
\<close>

definition ambient_vol :: "snd \<Rightarrow> nat \<Rightarrow> real" where
  "ambient_vol st lvl =
     (let vol = (ambient_level st * real lvl) / 255 in if vol < 0.03 then 0 else vol)"

definition ambient_fade_step :: "snd \<Rightarrow> real \<Rightarrow> real \<Rightarrow> real" where
  "ambient_fade_step st vol channel_vol =
     (if channel_vol < vol
      then (let c = channel_vol + host_frametime st * (ambient_fade st / 255)
            in if c > vol then vol else c)
      else if channel_vol > vol
      then (let c = channel_vol - host_frametime st * (ambient_fade st / 255)
            in if c < vol then vol else c)
      else channel_vol)"

text \<open>One iteration of the loop, for the ambient channel \<open>i\<close>.\<close>

definition S_UpdateAmbientSounds_body :: "(nat \<Rightarrow> nat) option \<Rightarrow> nat \<Rightarrow> snd \<Rightarrow> snd" where
  "S_UpdateAmbientSounds_body leaf i st =
     (case ambients st i of
        None \<Rightarrow> st
      | Some chan \<Rightarrow>
          (case leaf of
             None \<Rightarrow> FMOD_Channel_SetVolume chan 0 st
           | Some lf \<Rightarrow>
               if ambient_level st = 0 then FMOD_Channel_SetVolume chan 0 st
               else (case FMOD_Channel_GetVolume st chan of
                       None \<Rightarrow> st
                     | Some channel_vol \<Rightarrow>
                         FMOD_Channel_SetVolume chan
                           (ambient_fade_step st (ambient_vol st (lf i)) channel_vol) st)))"

definition S_UpdateAmbientSounds :: "constants \<Rightarrow> snd \<Rightarrow> snd" where
  "S_UpdateAmbientSounds k st =
     (let leaf = (if connected st then Mod_PointInLeaf st (listener_origin st) else None)
      in fold (S_UpdateAmbientSounds_body leaf) [0..<NUM_AMBIENTS k] st)"

subsection \<open>Entity sounds\<close>

text \<open>
  The loop of \<open>S_StartSound\<close> over the sounds already started this frame, from index
  \<open>i\<close> on: whether it finds \<open>sfx\<close>.
\<close>

function sfx_started :: "snd \<Rightarrow> nat \<Rightarrow> int \<Rightarrow> fault + bool" where
  "sfx_started st sfx i =
     (if i < numSfxThisFrame st
      then (if i < 0 \<or> 16 \<le> i then Inl OutOfBounds
            else if sfxThisFrame st (nat i) = Some sfx then Inr True
            else sfx_started st sfx (i + 1))
      else Inr False)"
  by pat_completeness auto
termination
  by (relation "measure (\<lambda>(st, sfx, i). nat (numSfxThisFrame st - i))") auto

declare sfx_started.simps [simp del]

text \<open>The loop with its body: a duplicate of this frame gets a random start delay.\<close>

definition S_StartSound_delay :: "snd \<Rightarrow> nat \<Rightarrow> nat \<Rightarrow> fault + snd" where
  "S_StartSound_delay st chan sfx =
     (case sfx_started st sfx 0 of
        Inl e \<Rightarrow> Inl e
      | Inr False \<Rightarrow> Inr st
      | Inr True \<Rightarrow>
          (let clock = FMOD_ChannelGroup_GetDSPClock st in
           case SND_GetDelay st sfx (1 / 10) of
             (d, st1) \<Rightarrow> Inr (FMOD_Channel_SetDelay chan (clock + d) st1)))"

text \<open>The statement that records the sound in \<open>sfxThisFrame\<close>.\<close>

definition S_StartSound_record :: "snd \<Rightarrow> nat \<Rightarrow> fault + snd" where
  "S_StartSound_record st sfx =
     (if numSfxThisFrame st < 16
      then (if numSfxThisFrame st < 0 then Inl OutOfBounds
            else Inr (st\<lparr>sfxThisFrame := (sfxThisFrame st)(nat (numSfxThisFrame st) := Some sfx),
                         numSfxThisFrame := numSfxThisFrame st + 1\<rparr>))
      else Inr st)"

definition S_StartSound ::
  "constants \<Rightarrow> snd \<Rightarrow> int \<Rightarrow> int \<Rightarrow> nat option \<Rightarrow> vec3 \<Rightarrow> real \<Rightarrow> real \<Rightarrow> fault + snd" where
  "S_StartSound k st entnum entchannel sfxp origin fvol attenuation =
     (case sfxp of
        None \<Rightarrow> Inr st
      | Some sfx \<Rightarrow>
          if \<not> fmod_system st then Inr st
          else if nosound st \<noteq> 0 then Inr st
          else case S_LoadSound st sfx of
            Inl e \<Rightarrow> Inl e
          | Inr st1 \<Rightarrow>
              (case sound (known_sfx st1 sfx) of
                 None \<Rightarrow> Inr st1
               | Some s \<Rightarrow>
                   (case SND_PickSoundSlot k st1 entnum entchannel of
                      (slot, st2) \<Rightarrow>
                        (case FMOD_System_PlaySound st2 s True of
                           (result, chan, st3) \<Rightarrow>
                             if result \<noteq> FMOD_OK
                             then Inr (Con_Printf ''Failed to play FMOD sound: %s'' st3)
                             else
                               let st4 = SND_FMOD_SetChannelAttributes chan sfx origin fvol st3;
                                   st5 = slot_upd slot
                                           (\<lambda>x. x\<lparr>channel := Some chan,
                                                   dist_mult := attenuation / sound_nominal_clip_dist\<rparr>) st4;
                                   st6 = FMOD_Channel_SetCallback chan
                                           (FMOD_Channel_SetUserData chan (Some slot) st5);
                                   st7 = (if entchannel < 0 \<or> entnum = viewentity st6
                                          then FMOD_Channel_SetPriority chan 64
                                                 (FMOD_Channel_Set3DLevel chan 0 st6)
                                          else st6)
                               in case S_StartSound_delay st7 chan sfx of
                                    Inl e \<Rightarrow> Inl e
                                  | Inr st8 \<Rightarrow>
                                      (case S_StartSound_record st8 sfx of
                                         Inl e \<Rightarrow> Inl e
                                       | Inr st9 \<Rightarrow> Inr (FMOD_Channel_SetPaused chan False st9))))))"

subsection \<open>Static sounds\<close>

definition S_StaticSound ::
  "constants \<Rightarrow> snd \<Rightarrow> nat option \<Rightarrow> vec3 \<Rightarrow> real \<Rightarrow> real \<Rightarrow> fault + snd" where
  "S_StaticSound k st sfxp origin vol attenuation =
     (case sfxp of
        None \<Rightarrow> Inr st
      | Some sfx \<Rightarrow>
          if \<not> fmod_system st then Inr st
          else case S_LoadSound st sfx of
            Inl e \<Rightarrow> Inl e
          | Inr st1 \<Rightarrow>
              (case sound (known_sfx st1 sfx) of
                 None \<Rightarrow> Inr st1
               | Some s \<Rightarrow>
                   if loopstart (known_sfx st1 sfx) < 0
                   then Inr (Con_Printf ''Sound %s not looped'' st1)
                   else
                     (case FMOD_System_PlaySound st1 s True of
                        (result, chan, st2) \<Rightarrow>
                          if result \<noteq> FMOD_OK
                          then Inr (Con_Printf ''Failed to play static FMOD sound: %s'' st2)
                          else
                            let st3 = SND_FMOD_SetChannelAttributes chan sfx origin (vol / 255) st2
                            in case SND_PickSoundSlot k st3 (- 1) (- 1) of
                                 (slot, st4) \<Rightarrow>
                                   (let st5 = slot_upd slot
                                                (\<lambda>x. x\<lparr>channel := Some chan,
                                                        dist_mult := (attenuation / 64) / sound_nominal_clip_dist\<rparr>) st4;
                                        st6 = FMOD_Channel_SetCallback chan
                                                (FMOD_Channel_SetUserData chan (Some slot) st5);
                                        clock = FMOD_ChannelGroup_GetDSPClock st6
                                    in case SND_GetDelay st6 sfx (2 / 10) of
                                         (d, st7) \<Rightarrow>
                                           Inr (FMOD_Channel_SetPaused chan False
                                                  (FMOD_Channel_SetDelay chan (clock + d) st7))))))"

definition S_StopSound :: "constants \<Rightarrow> snd \<Rightarrow> int \<Rightarrow> int \<Rightarrow> snd" where
  "S_StopSound k st entnum entchannel =
     (if \<not> fmod_system st then st
      else if entnum < 0 \<or> entnum \<ge> MAX_CHANNELS k \<or> entchannel < 0 \<or> entchannel > 7 then st
      else case channel (entsounds st entnum entchannel) of
             None \<Rightarrow> st
           | Some old \<Rightarrow>
               (let clock = FMOD_ChannelGroup_GetDSPClock st;
                    st = FMOD_Channel_SetFadePointRamp old (clock + 64) 0 st;
                    st = FMOD_Channel_SetMode old FMOD_LOOP_OFF st
                in slot_upd (EntSlot entnum entchannel) (\<lambda>s. s\<lparr>channel := None\<rparr>) st))"

definition S_ClearBuffer :: "snd \<Rightarrow> snd" where
  "S_ClearBuffer st = st"

definition S_StopAllSounds :: "constants \<Rightarrow> snd \<Rightarrow> bool \<Rightarrow> fault + snd" where
  "S_StopAllSounds k st clear =
     (if \<not> fmod_system st then Inr st
      else case FMOD_ChannelGroup_Stop st of
             Inl e \<Rightarrow> Inl e
           | Inr st1 \<Rightarrow> if clear then SND_StartAmbientSounds k (S_ClearBuffer st1) else Inr st1)"

text \<open>
  \<open>S_Update\<close>. The listener attributes and the group volume that it hands to the
  engine stay inside the engine and are not part of the state here;
  \<open>Cvar_SetQuick\<close> stores the new value of the variable.
\<close>

definition S_Update :: "constants \<Rightarrow> snd \<Rightarrow> vec3 \<Rightarrow> vec3 \<Rightarrow> vec3 \<Rightarrow> vec3 \<Rightarrow> fault + snd" where
  "S_Update k st origin forward right up =
     (if \<not> fmod_system st then Inr st
      else let st = (if old_volume st \<noteq> sfxvolume st
                     then (let st = (if sfxvolume st < 0 then st\<lparr>sfxvolume := 0\<rparr>
                                     else if sfxvolume st > 1 then st\<lparr>sfxvolume := 1\<rparr>
                                     else st)
                           in st\<lparr>old_volume := sfxvolume st\<rparr>)
                     else st);
               st = st\<lparr>listener_origin := origin\<rparr>;
               st = S_UpdateAmbientSounds k st
           in case FMOD_System_Update st of
                Inl e \<Rightarrow> Inl e
              | Inr st1 \<Rightarrow> Inr (st1\<lparr>sfxThisFrame := (\<lambda>i. None), numSfxThisFrame := 0\<rparr>))"

text \<open>
  \<open>S_BlockSound\<close> and \<open>S_UnblockSound\<close> only switch the master mute of the engine,
  which no function here reads; \<open>S_TouchSound\<close> does nothing.
\<close>

definition S_ExtraUpdate :: "snd \<Rightarrow> fault + snd" where
  "S_ExtraUpdate st = (if \<not> fmod_system st then Inr st else FMOD_System_Update st)"

text \<open>
  \<open>S_Shutdown\<close> releases the sound of every known \<open>sfx_t\<close> and the channel group,
  closes the engine and forgets it.
\<close>

definition S_Shutdown :: "constants \<Rightarrow> snd \<Rightarrow> fault + snd" where
  "S_Shutdown k st =
     (case S_StopAllSounds k (Con_DPrintf ''[FMOD] Shutdown'' st) False of
        Inl e \<Rightarrow> Inl e
      | Inr st1 \<Rightarrow>
          Inr (st1\<lparr>known_sfx := (\<lambda>i. if i < num_sfx st1 then (known_sfx st1 i)\<lparr>sound := None\<rparr>
                                     else known_sfx st1 i),
                   sfx_channelGroup := False,
                   fmod_system := False\<rparr>))"

section \<open>Concrete states\<close>

text \<open>
  The constants as the engine's headers define them, the state of the program before
  \<open>S_Startup\<close> (every static is zero) in an environment where every play request
  succeeds and no file exists, and a state after a successful start in which every
  sound is resident and half a second long; the sounds 0 to 3 are not looped, the
  others are.
\<close>

definition quake_constants :: constants where
  "quake_constants =
     \<lparr>MAX_CHANNELS = 1024, NUM_AMBIENTS = 4, AMBIENT_WATER = 0, AMBIENT_SKY = 1,
      FMOD_VERSION = 131584\<rparr>"

definition snd_boot :: snd where
  "snd_boot =
     \<lparr>fmod_system = False, sound_started = False, fmod_samplerate = 0, old_volume = - 1,
      sfx_channelGroup = False, listener_origin = (0, 0, 0),
      entsounds = (\<lambda>e c. \<lparr>zone = False, channel = None, dist_mult = 0\<rparr>),
      ambients = (\<lambda>i. None), sfxThisFrame = (\<lambda>i. None), numSfxThisFrame = 0,
      known_sfx = (\<lambda>i. \<lparr>name = [], sound = None, loopstart = 0, loopend = 0, length_ms = 0\<rparr>),
      num_sfx = 0, nosound = 0, ambient_level = 3 / 10, ambient_fade = 100, sfxvolume = 7 / 10,
      host_frametime = 1 / 128, viewentity = 1, connected = False,
      Mod_PointInLeaf = (\<lambda>p. None), zone_heap = (\<lambda>a. None), zone_next = 0, console = [],
      fmod_channels = (\<lambda>h. None), next_channel = 0, next_sound = 0, dspclock = 0,
      play_results = (\<lambda>n. FMOD_OK), play_calls = 0, rand_values = (\<lambda>n. 4200 + 42 * n), rand_calls = 0,
      ending = (\<lambda>n. []), update_calls = 0, sound_files = (\<lambda>f. None),
      S_PrecacheSound = (\<lambda>f. None)\<rparr>"

definition fmod_all_ok :: fmod_startup where
  "fmod_all_ok =
     \<lparr>System_Create = FMOD_OK, System_GetVersion = FMOD_OK, version = 131584,
      System_SetSoftwareChannels = FMOD_OK, System_Init = FMOD_OK, System_GetDriver = FMOD_OK,
      System_GetDriverInfo = FMOD_OK, driver_samplerate = 48000,
      System_CreateChannelGroup = FMOD_OK\<rparr>"

definition snd_ready :: snd where
  "snd_ready =
     (S_Startup quake_constants fmod_all_ok snd_boot)
       \<lparr>known_sfx := (\<lambda>i. \<lparr>name = [], sound = Some i,
                            loopstart = (if i < 4 then - 1 else 0),
                            loopend = (if i < 4 then - 1 else 500), length_ms = 500\<rparr>),
        num_sfx := 8\<rparr>"

text \<open>
  The ready state with one voice, handle 0, playing sound 2 on the slot of entity 5,
  channel 1, whose distance multiplier is \<open>m\<close>: what a start of that sound with the
  attenuation \<open>1000 * m\<close> leaves.
\<close>

definition snd_playing :: "real \<Rightarrow> snd" where
  "snd_playing m =
     snd_ready
       \<lparr>entsounds := (entsounds snd_ready)
          (5 := (entsounds snd_ready 5)(1 := \<lparr>zone = False, channel = Some 0, dist_mult = m\<rparr>)),
        sfxThisFrame := (sfxThisFrame snd_ready)(0 := Some 2),
        numSfxThisFrame := 1,
        fmod_channels := (fmod_channels snd_ready)(0 \<mapsto>
          \<lparr>ch_sound = 2, ch_paused = False, ch_position = (0, 0, 0), ch_volume = 1,
           ch_mode = FMOD_LOOP_OFF, ch_looppoints = None, ch_level3d = 1, ch_priority = 128,
           ch_userdata = Some (EntSlot 5 1), ch_callback = True, ch_fade = None,
           ch_delay = None\<rparr>),
        next_channel := 1,
        play_calls := 1\<rparr>"

text \<open>
  The ready state with one more sound in the registry, not yet loaded, whose file has a
  loop start at 3000000 samples, 4000000 samples in all and the sample rate 44100.
\<close>

definition snd_long_wav :: snd where
  "snd_long_wav =
     snd_ready
       \<lparr>known_sfx := (known_sfx snd_ready)
          (8 := \<lparr>name = ''long.wav'', sound = None, loopstart = 0, loopend = 0, length_ms = 0\<rparr>),
        num_sfx := 9,
        next_sound := 8,
        sound_files := (sound_files snd_ready)
          (''sound/long.wav'' \<mapsto>
             \<lparr>info = \<lparr>wav_channels = 1, wav_loopstart = 3000000, wav_rate = 44100,
                      wav_samples = 4000000\<rparr>,
              create_result = FMOD_OK, sound_length = 90702\<rparr>)\<rparr>"

text \<open>
  The ready state with the water ambience playing as voice 0 at the volume \<open>v\<close>;
  \<open>conn\<close> says whether the listener is in a known region, and every ambient level of
  that region is \<open>lvl\<close>.
\<close>

definition snd_ambient :: "bool \<Rightarrow> nat \<Rightarrow> real \<Rightarrow> snd" where
  "snd_ambient conn lvl v =
     snd_ready
       \<lparr>ambients := (ambients snd_ready)(0 := Some 0),
        connected := conn,
        Mod_PointInLeaf := (\<lambda>p. Some (\<lambda>i. lvl)),
        fmod_channels := (fmod_channels snd_ready)(0 \<mapsto>
          \<lparr>ch_sound = 0, ch_paused = False, ch_position = (0, 0, 0), ch_volume = v,
           ch_mode = FMOD_LOOP_NORMAL, ch_looppoints = Some (0, 500), ch_level3d = 0,
           ch_priority = 128, ch_userdata = None, ch_callback = False, ch_fade = None,
           ch_delay = None\<rparr>),
        next_channel := 1,
        play_calls := 1\<rparr>"

section \<open>Runs of the interface\<close>

text \<open>
  A call of one of the public functions with its arguments, and a run of such calls from
  a state; a fault ends the run.
\<close>

datatype call =
    Startup fmod_startup
  | Shutdown
  | StartSound int int "nat option" vec3 real real
  | StaticSound "nat option" vec3 real real
  | StopSound int int
  | StopAllSounds bool
  | Update vec3 vec3 vec3 vec3
  | ExtraUpdate

fun do_call :: "constants \<Rightarrow> call \<Rightarrow> snd \<Rightarrow> fault + snd" where
  "do_call k (Startup env) st = Inr (S_Startup k env st)"
| "do_call k Shutdown st = S_Shutdown k st"
| "do_call k (StartSound entnum entchannel sfx origin fvol attenuation) st =
     S_StartSound k st entnum entchannel sfx origin fvol attenuation"
| "do_call k (StaticSound sfx origin vol attenuation) st =
     S_StaticSound k st sfx origin vol attenuation"
| "do_call k (StopSound entnum entchannel) st = Inr (S_StopSound k st entnum entchannel)"
| "do_call k (StopAllSounds clear) st = S_StopAllSounds k st clear"
| "do_call k (Update origin forward right up) st = S_Update k st origin forward right up"
| "do_call k ExtraUpdate st = S_ExtraUpdate st"

fun run :: "constants \<Rightarrow> call list \<Rightarrow> snd \<Rightarrow> fault + snd" where
  "run k [] st = Inr st"
| "run k (c # cs) st = (case do_call k c st of Inl e \<Rightarrow> Inl e | Inr st1 \<Rightarrow> run k cs st1)"

text \<open>
  The calls that write the distance multiplier of a slot: the two starts, and
  \<open>S_Startup\<close>, which clears the grid. A state keeps the multipliers of an earlier one
  when every slot of the grid has the multiplier it had and every block of zone memory
  that is still allocated is unchanged.
\<close>

fun writes_dist_mult :: "call \<Rightarrow> bool" where
  "writes_dist_mult (Startup env) = True"
| "writes_dist_mult (StartSound entnum entchannel sfx origin fvol attenuation) = True"
| "writes_dist_mult (StaticSound sfx origin vol attenuation) = True"
| "writes_dist_mult c = False"

definition dist_mult_kept :: "snd \<Rightarrow> snd \<Rightarrow> bool" where
  "dist_mult_kept st st' =
     ((\<forall>e c. dist_mult (entsounds st' e c) = dist_mult (entsounds st e c))
      \<and> (\<forall>a x. zone_heap st' a = Some x \<longrightarrow> zone_heap st a = Some x))"

text \<open>
  The count of recorded sounds is an index into the 16 entries of \<open>sfxThisFrame\<close> or
  one past them; a result keeps the record when it is not an access out of bounds and
  the count of its state is in that range.
\<close>

definition record_in_bounds :: "snd \<Rightarrow> bool" where
  "record_in_bounds st = (0 \<le> numSfxThisFrame st \<and> numSfxThisFrame st \<le> 16)"

definition keeps_record :: "fault + snd \<Rightarrow> bool" where
  "keeps_record r = (case r of Inl e \<Rightarrow> e \<noteq> OutOfBounds | Inr st \<Rightarrow> record_in_bounds st)"

text \<open>
  The ready state late in a frame: sound 0 has been recorded 16 times, so the record is
  full.
\<close>

definition snd_full :: snd where
  "snd_full =
     snd_ready\<lparr>sfxThisFrame := (\<lambda>i. if i < 16 then Some 0 else None), numSfxThisFrame := 16\<rparr>"

text \<open>
  The state after a start in which the engine is created but its initialisation fails.
\<close>

definition snd_init_failed :: snd where
  "snd_init_failed =
     S_Startup quake_constants (fmod_all_ok\<lparr>System_Init := FMOD_ERR 1\<rparr>) snd_boot"

section \<open>How the operations change the state\<close>

lemma snd_boot_fields [simp]:
  "fmod_system snd_boot = False"
  "sound_started snd_boot = False"
  "fmod_samplerate snd_boot = 0"
  "old_volume snd_boot = - 1"
  "sfx_channelGroup snd_boot = False"
  "listener_origin snd_boot = (0, 0, 0)"
  "entsounds snd_boot = (\<lambda>e c. \<lparr>zone = False, channel = None, dist_mult = 0\<rparr>)"
  "ambients snd_boot = (\<lambda>i. None)"
  "sfxThisFrame snd_boot = (\<lambda>i. None)"
  "numSfxThisFrame snd_boot = 0"
  "known_sfx snd_boot = (\<lambda>i. \<lparr>name = [], sound = None, loopstart = 0, loopend = 0, length_ms = 0\<rparr>)"
  "num_sfx snd_boot = 0"
  "nosound snd_boot = 0"
  "ambient_level snd_boot = 3 / 10"
  "ambient_fade snd_boot = 100"
  "sfxvolume snd_boot = 7 / 10"
  "host_frametime snd_boot = 1 / 128"
  "viewentity snd_boot = 1"
  "connected snd_boot = False"
  "Mod_PointInLeaf snd_boot = (\<lambda>p. None)"
  "zone_heap snd_boot = (\<lambda>a. None)"
  "zone_next snd_boot = 0"
  "console snd_boot = []"
  "fmod_channels snd_boot = (\<lambda>h. None)"
  "next_channel snd_boot = 0"
  "next_sound snd_boot = 0"
  "dspclock snd_boot = 0"
  "play_results snd_boot = (\<lambda>n. FMOD_OK)"
  "play_calls snd_boot = 0"
  "rand_values snd_boot = (\<lambda>n. 4200 + 42 * n)"
  "rand_calls snd_boot = 0"
  "ending snd_boot = (\<lambda>n. [])"
  "update_calls snd_boot = 0"
  "sound_files snd_boot = (\<lambda>f. None)"
  "S_PrecacheSound snd_boot = (\<lambda>f. None)"
  by (simp_all add: snd_boot_def)

lemma snd_ready_eq:
  "snd_ready =
     snd_boot\<lparr>fmod_system := True, fmod_samplerate := 48000,
       console := [''FMOD version %01x.%02x.%02x, driver '%s', %s speaker mode, %d Hz, %d channels''],
       sfx_channelGroup := True,
       entsounds := (\<lambda>e c. \<lparr>zone = False, channel = None, dist_mult = 0\<rparr>),
       sfxThisFrame := (\<lambda>i. None), numSfxThisFrame := 0, sound_started := True,
       known_sfx := (\<lambda>i. \<lparr>name = [], sound = Some i,
                            loopstart = (if i < 4 then - 1 else 0),
                            loopend = (if i < 4 then - 1 else 500), length_ms = 500\<rparr>),
       num_sfx := 8\<rparr>"
  by (simp add: snd_ready_def S_Startup_def fmod_all_ok_def quake_constants_def Con_Printf_def
      Let_def)

text \<open>An operation on a voice, and on a slot, as one update of the state.\<close>

lemma chan_upd_eq:
  "chan_upd h f st =
     st\<lparr>fmod_channels := (fmod_channels st)(h := map_option f (fmod_channels st h))\<rparr>"
  by (cases "fmod_channels st h") (simp_all add: chan_upd_def fun_upd_idem)

lemma slot_upd_Zone:
  "slot_upd (ZoneSlot a) f st =
     st\<lparr>zone_heap := (zone_heap st)(a := map_option f (zone_heap st a))\<rparr>"
  by (cases "zone_heap st a") (simp_all add: slot_upd_def fun_upd_idem)

lemma slot_upd_Ent:
  "slot_upd (EntSlot e c) f st =
     st\<lparr>entsounds := (entsounds st)(e := (entsounds st e)(c := f (entsounds st e c)))\<rparr>"
  by (simp add: slot_upd_def)

lemmas fmod_channel_defs =
  FMOD_Channel_Set3DAttributes_def FMOD_Channel_SetVolume_def FMOD_Channel_GetVolume_def
  FMOD_Channel_SetMode_def FMOD_Channel_SetLoopPoints_def FMOD_Channel_Set3DLevel_def
  FMOD_Channel_SetPriority_def FMOD_Channel_SetPaused_def FMOD_Channel_SetUserData_def
  FMOD_Channel_GetUserData_def FMOD_Channel_SetCallback_def FMOD_Channel_SetFadePointRamp_def
  FMOD_Channel_SetDelay_def FMOD_ChannelGroup_GetDSPClock_def

lemma S_LoadSound_resident:
  "sound (known_sfx st s) \<noteq> None \<Longrightarrow> S_LoadSound st s = Inr st"
  by (simp add: S_LoadSound_def)

lemma PlaySound_ok:
  "play_results st (play_calls st) = FMOD_OK \<Longrightarrow>
   FMOD_System_PlaySound st s paused =
     (FMOD_OK, next_channel st,
      st\<lparr>play_calls := play_calls st + 1,
         fmod_channels := (fmod_channels st)(next_channel st \<mapsto>
            \<lparr>ch_sound = s, ch_paused = paused, ch_position = (0, 0, 0),
             ch_volume = 1, ch_mode = FMOD_LOOP_OFF, ch_looppoints = None,
             ch_level3d = 1, ch_priority = 128, ch_userdata = None,
             ch_callback = False, ch_fade = None, ch_delay = None\<rparr>),
         next_channel := next_channel st + 1\<rparr>)"
  by (simp add: FMOD_System_PlaySound_def Let_def)

lemma PlaySound_failed:
  "play_results st (play_calls st) \<noteq> FMOD_OK \<Longrightarrow>
   FMOD_System_PlaySound st s paused =
     (play_results st (play_calls st), next_channel st, st\<lparr>play_calls := play_calls st + 1\<rparr>)"
  by (simp add: FMOD_System_PlaySound_def Let_def)

text \<open>The two outcomes of the slot allocator.\<close>

lemma PickSoundSlot_anonymous:
  "entnum < 0 \<or> entnum \<ge> MAX_CHANNELS k \<or> entchannel = 0 \<or> entchannel > 7 \<Longrightarrow>
   SND_PickSoundSlot k st entnum entchannel =
     (ZoneSlot (zone_next st),
      st\<lparr>zone_heap := (zone_heap st)(zone_next st \<mapsto> \<lparr>zone = True, channel = None, dist_mult = 0\<rparr>),
         zone_next := zone_next st + 1\<rparr>)"
  by (simp add: SND_PickSoundSlot_def Z_Malloc_def slot_upd_Zone)

lemma slot_channel_idem:
  "channel (s::soundslot_t) = None \<Longrightarrow> s\<lparr>channel := None\<rparr> = s"
  by (cases s) simp

lemma PickSoundSlot_tracked:
  assumes "0 \<le> entnum" "entnum < MAX_CHANNELS k" "entchannel \<noteq> 0" "entchannel \<le> 7"
  shows "SND_PickSoundSlot k st entnum entchannel =
     (EntSlot entnum (if entchannel < 0 then 0 else entchannel),
      (case channel (entsounds st entnum (if entchannel < 0 then 0 else entchannel)) of
         None \<Rightarrow> st
       | Some old \<Rightarrow> st\<lparr>fmod_channels := (fmod_channels st)(old := map_option
             (\<lambda>c. c\<lparr>ch_fade := Some (dspclock st + 64, 0), ch_mode := FMOD_LOOP_OFF\<rparr>)
             (fmod_channels st old))\<rparr>)
      \<lparr>entsounds := (entsounds st)(entnum := (entsounds st entnum)
          ((if entchannel < 0 then 0 else entchannel) :=
             (entsounds st entnum (if entchannel < 0 then 0 else entchannel))
               \<lparr>channel := None, zone := False\<rparr>))\<rparr>)"
  using assms
  by (auto simp add: SND_PickSoundSlot_def Let_def slot_upd_Ent chan_upd_eq fmod_channel_defs
      slot_channel_idem option.map_comp comp_def split: option.splits)

lemma snd_ready_fields [simp]:
  "fmod_system snd_ready" "nosound snd_ready = 0" "numSfxThisFrame snd_ready = 0"
  "sfxThisFrame snd_ready = (\<lambda>i. None)"
  "known_sfx snd_ready = (\<lambda>i. \<lparr>name = [], sound = Some i,
                            loopstart = (if i < 4 then - 1 else 0),
                            loopend = (if i < 4 then - 1 else 500), length_ms = 500\<rparr>)"
  "play_results snd_ready = (\<lambda>n. FMOD_OK)" "play_calls snd_ready = 0"
  "next_channel snd_ready = 0" "fmod_channels snd_ready = (\<lambda>h. None)"
  "entsounds snd_ready = (\<lambda>e c. \<lparr>zone = False, channel = None, dist_mult = 0\<rparr>)"
  "zone_heap snd_ready = (\<lambda>a. None)" "zone_next snd_ready = 0"
  "dspclock snd_ready = 0" "rand_values snd_ready = (\<lambda>n. 4200 + 42 * n)" "rand_calls snd_ready = 0"
  "fmod_samplerate snd_ready = 48000" "viewentity snd_ready = 1"
  "ambients snd_ready = (\<lambda>i. None)" "connected snd_ready = False"
  "ambient_level snd_ready = 3 / 10" "ambient_fade snd_ready = 100"
  "host_frametime snd_ready = 1 / 128" "ending snd_ready = (\<lambda>n. [])"
  "update_calls snd_ready = 0" "sfx_channelGroup snd_ready"
  "listener_origin snd_ready = (0, 0, 0)" "old_volume snd_ready = - 1"
  "sfxvolume snd_ready = 7 / 10"
  by (simp_all add: snd_ready_eq)

lemma StartSound_reaches_snd_playing:
  "S_StartSound quake_constants snd_ready 5 1 (Some 2) (0, 0, 0) 1 (1000 * m) = Inr (snd_playing m)"
  by (simp add: S_StartSound_def S_LoadSound_resident PickSoundSlot_tracked quake_constants_def
      PlaySound_ok SND_FMOD_SetChannelAttributes_def Let_def slot_upd_Ent chan_upd_eq
      fmod_channel_defs sound_nominal_clip_dist_def S_StartSound_delay_def sfx_started.simps
      S_StartSound_record_def snd_playing_def)

section \<open>The attenuation callback\<close>

lemma Attenuation_slot:
  assumes "FMOD_Channel_GetUserData st h = Some p" and "slot_get st p = Some slot"
  shows "SND_FMOD_Attenuation st h d = Inr (max 0 (1 - d * dist_mult slot))"
  using assms by (simp add: SND_FMOD_Attenuation_def Let_def max_def)

lemma snd_playing_voice:
  "FMOD_Channel_GetUserData (snd_playing m) 0 = Some (EntSlot 5 1)"
  "slot_get (snd_playing m) (EntSlot 5 1) = Some \<lparr>zone = False, channel = Some 0, dist_mult = m\<rparr>"
  by (simp_all add: snd_playing_def FMOD_Channel_GetUserData_def slot_get_def)

text \<open>
  C2, as amended. For every distance and every voice whose user data is a slot, the
  callback returns exactly \<open>max 0 (1 - d * dist_mult)\<close>; the gain lies in the interval
  from 0 to 1 when the distance and the slot's multiplier are not negative. (The source
  clamps from below only.)
\<close>

theorem C2_attenuation_gain:
  assumes "FMOD_Channel_GetUserData st h = Some p" and "slot_get st p = Some slot"
  shows "SND_FMOD_Attenuation st h d = Inr (max 0 (1 - d * dist_mult slot))
         \<and> (0 \<le> d \<and> 0 \<le> dist_mult slot \<longrightarrow>
              0 \<le> max 0 (1 - d * dist_mult slot) \<and> max 0 (1 - d * dist_mult slot) \<le> 1)"
proof -
  have "max 0 (1 - d * dist_mult slot) \<le> 1" if "0 \<le> d" "0 \<le> dist_mult slot"
  proof -
    have "0 \<le> d * dist_mult slot"
      using that by simp
    then show ?thesis
      by simp
  qed
  with Attenuation_slot [OF assms] show ?thesis
    by simp
qed

theorem C2_attenuation_gain_witness:
  "SND_FMOD_Attenuation (snd_playing (1 / 1000)) 0 250 = Inr (3 / 4)
   \<and> (0::real) \<le> 3 / 4 \<and> (3 / 4 :: real) \<le> 1"
  using C2_attenuation_gain [of "snd_playing (1 / 1000)" 0 "EntSlot 5 1"
      "\<lparr>zone = False, channel = Some 0, dist_mult = 1 / 1000\<rparr>" 250]
  by (simp add: snd_playing_voice)

text \<open>
  The claim as stated fails for a slot with a negative multiplier (a sound started with
  the attenuation -1000): at distance 1 the gain is 2.
\<close>

theorem C2_gain_above_one:
  "S_StartSound quake_constants snd_ready 5 1 (Some 2) (0, 0, 0) 1 (- 1000) = Inr (snd_playing (- 1))
   \<and> SND_FMOD_Attenuation (snd_playing (- 1)) 0 1 = Inr 2 \<and> \<not> (2::real) \<le> 1"
  using StartSound_reaches_snd_playing [of "- 1"]
    Attenuation_slot [OF snd_playing_voice, of "- 1" 1]
  by simp

text \<open>
  C9, as amended. For a voice whose slot has a multiplier that is not negative, the gain
  does not increase with the distance.
\<close>

theorem C9_attenuation_monotone:
  assumes "FMOD_Channel_GetUserData st h = Some p" and "slot_get st p = Some slot"
    and "0 \<le> dist_mult slot" and "d1 < d2"
  shows "case (SND_FMOD_Attenuation st h d1, SND_FMOD_Attenuation st h d2) of
           (Inr g1, Inr g2) \<Rightarrow> g2 \<le> g1
         | _ \<Rightarrow> False"
proof -
  have "d1 * dist_mult slot \<le> d2 * dist_mult slot"
    using assms(3,4) by (simp add: mult_right_mono)
  then have "max 0 (1 - d2 * dist_mult slot) \<le> max 0 (1 - d1 * dist_mult slot)"
    by (simp add: max_def)
  then show ?thesis
    by (simp add: Attenuation_slot [OF assms(1,2)])
qed

theorem C9_attenuation_monotone_witness:
  "SND_FMOD_Attenuation (snd_playing (1 / 1000)) 0 250 = Inr (3 / 4)
   \<and> SND_FMOD_Attenuation (snd_playing (1 / 1000)) 0 500 = Inr (1 / 2)
   \<and> (1 / 2 :: real) \<le> 3 / 4"
  using C9_attenuation_monotone [of "snd_playing (1 / 1000)" 0 "EntSlot 5 1"
      "\<lparr>zone = False, channel = Some 0, dist_mult = 1 / 1000\<rparr>" 250 500]
    Attenuation_slot [OF snd_playing_voice, of "1 / 1000" 250]
    Attenuation_slot [OF snd_playing_voice, of "1 / 1000" 500]
  by (simp add: snd_playing_voice)

text \<open>
  The claim as stated fails for a slot with a negative multiplier: the gain at distance
  1 is 2, and at distance 2 it is 3.
\<close>

theorem C9_gain_increases:
  "(1::real) < 2 \<and> SND_FMOD_Attenuation (snd_playing (- 1)) 0 1 = Inr 2
   \<and> SND_FMOD_Attenuation (snd_playing (- 1)) 0 2 = Inr 3 \<and> \<not> (3::real) \<le> 2"
  using Attenuation_slot [OF snd_playing_voice, of "- 1" 1]
    Attenuation_slot [OF snd_playing_voice, of "- 1" 2]
  by simp

section \<open>The slot allocator\<close>

text \<open>
  C6, as amended. The allocator returns a fresh zone slot, marked for release at the end
  of its voice, exactly when the entity number is outside the grid or the channel is
  zero or greater than 7. Otherwise a negative channel becomes channel 0 and the slot of
  the grid at (entity, channel) is returned, inside the grid, with its zone flag and its
  voice reference cleared. There is no error result: a slot is returned in both cases.
\<close>

theorem C6_slot_allocator:
  "case SND_PickSoundSlot k st entnum entchannel of
     (slot, st') \<Rightarrow>
       if entnum < 0 \<or> MAX_CHANNELS k \<le> entnum \<or> entchannel = 0 \<or> 7 < entchannel
       then slot = ZoneSlot (zone_next st) \<and> zone_next st' = zone_next st + 1
            \<and> slot_get st' slot = Some \<lparr>zone = True, channel = None, dist_mult = 0\<rparr>
            \<and> entsounds st' = entsounds st
       else slot = EntSlot entnum (if entchannel < 0 then 0 else entchannel)
            \<and> 0 \<le> entnum \<and> entnum < MAX_CHANNELS k
            \<and> 0 \<le> (if entchannel < 0 then 0 else entchannel)
            \<and> (if entchannel < 0 then 0 else entchannel) < 8
            \<and> slot_get st' slot =
                Some ((entsounds st entnum (if entchannel < 0 then 0 else entchannel))
                        \<lparr>zone := False, channel := None\<rparr>)
            \<and> zone_heap st' = zone_heap st \<and> zone_next st' = zone_next st"
proof (cases "entnum < 0 \<or> MAX_CHANNELS k \<le> entnum \<or> entchannel = 0 \<or> 7 < entchannel")
  case True
  then show ?thesis
    by (simp add: PickSoundSlot_anonymous slot_get_def)
next
  case False
  then have t: "0 \<le> entnum" "entnum < MAX_CHANNELS k" "entchannel \<noteq> 0" "entchannel \<le> 7"
    by simp_all
  show ?thesis
    using False by (simp add: PickSoundSlot_tracked [OF t] slot_get_def split: option.splits)
qed

theorem C6_slot_allocator_witness:
  "fst (SND_PickSoundSlot quake_constants snd_ready 5 1) = EntSlot 5 1
   \<and> fst (SND_PickSoundSlot quake_constants snd_ready 5 0) = ZoneSlot 0
   \<and> fst (SND_PickSoundSlot quake_constants snd_ready 2000 1) = ZoneSlot 0
   \<and> fst (SND_PickSoundSlot quake_constants snd_ready 5 8) = ZoneSlot 0"
  using C6_slot_allocator [where k = quake_constants and st = snd_ready and entnum = 5 and entchannel = 1]
    C6_slot_allocator [where k = quake_constants and st = snd_ready and entnum = 5 and entchannel = 0]
    C6_slot_allocator [where k = quake_constants and st = snd_ready and entnum = 2000 and entchannel = 1]
    C6_slot_allocator [where k = quake_constants and st = snd_ready and entnum = 5 and entchannel = 8]
  by (simp add: quake_constants_def split: prod.splits)

text \<open>
  The claim as stated fails for a negative channel, which is outside 1..7: for entity 5
  and channel -1 the allocator returns the slot (5, 0) of the grid and allocates
  nothing.
\<close>

theorem C6_negative_channel_is_tracked:
  "\<not> (1 \<le> (- 1 :: int) \<and> (- 1 :: int) \<le> 7)
   \<and> fst (SND_PickSoundSlot quake_constants snd_ready 5 (- 1)) = EntSlot 5 0
   \<and> zone_next (snd (SND_PickSoundSlot quake_constants snd_ready 5 (- 1))) = zone_next snd_ready"
  by (simp add: PickSoundSlot_tracked quake_constants_def)

section \<open>Starting a sound\<close>

text \<open>The duplicate scan, when the count is within the array: it never leaves the
  array, and it finds the sound exactly when one of the recorded entries is that sound.\<close>

lemma sfx_started_eq:
  "0 \<le> i \<Longrightarrow> numSfxThisFrame st \<le> 16 \<Longrightarrow>
   sfx_started st sfx i =
     Inr (\<exists>j. i \<le> j \<and> j < numSfxThisFrame st \<and> sfxThisFrame st (nat j) = Some sfx)"
proof (induction st sfx i rule: sfx_started.induct)
  case (1 st sfx i)
  show ?case
  proof (cases "i < numSfxThisFrame st")
    case False
    then show ?thesis
      by (subst sfx_started.simps) auto
  next
    case True
    note inside = this
    show ?thesis
    proof (cases "sfxThisFrame st (nat i) = Some sfx")
      case True
      with inside "1.prems" show ?thesis
        by (subst sfx_started.simps) auto
    next
      case False
      with inside "1.prems" have
        "sfx_started st sfx (i + 1) =
           Inr (\<exists>j. i + 1 \<le> j \<and> j < numSfxThisFrame st \<and> sfxThisFrame st (nat j) = Some sfx)"
        by (intro "1.IH") auto
      moreover have
        "(\<exists>j. i + 1 \<le> j \<and> j < numSfxThisFrame st \<and> sfxThisFrame st (nat j) = Some sfx)
         = (\<exists>j. i \<le> j \<and> j < numSfxThisFrame st \<and> sfxThisFrame st (nat j) = Some sfx)"
        using False by (metis add1_zle_eq order_le_less)
      ultimately show ?thesis
        using inside False "1.prems" by (subst sfx_started.simps) auto
    qed
  qed
qed


text \<open>\<open>SND_GetDelay\<close>: its value, and its only effect, the use of \<open>rand\<close>.\<close>

lemma SND_GetDelay_value:
  "fst (SND_GetDelay st sfx m) =
     (if 0 < min (nat \<lfloor>m * 1000\<rfloor>) (length_ms (known_sfx st sfx))
      then (rand_values st (rand_calls st)
              mod min (nat \<lfloor>m * 1000\<rfloor>) (length_ms (known_sfx st sfx)))
           * nat (fmod_samplerate st mod 2 ^ 32) mod 2 ^ 32 div 1000
      else 0)"
proof -
  define w :: nat where "w = 2 ^ 32"
  define wi :: int where "wi = 2 ^ 32"
  have "fst (SND_GetDelay st sfx m) =
     (if 0 < min (nat \<lfloor>m * 1000\<rfloor>) (length_ms (known_sfx st sfx))
      then (rand_values st (rand_calls st)
              mod min (nat \<lfloor>m * 1000\<rfloor>) (length_ms (known_sfx st sfx)))
           * nat (fmod_samplerate st mod wi) mod w div 1000
      else 0)"
    unfolding SND_GetDelay_def rand_def Let_def w_def [symmetric] wi_def [symmetric]
    by (simp add: min_def)
  then show ?thesis by (simp only: w_def wi_def)
qed

lemma SND_GetDelay_state:
  "snd (SND_GetDelay st sfx m) =
     st\<lparr>rand_calls := rand_calls st +
          (if 0 < min (nat \<lfloor>m * 1000\<rfloor>) (length_ms (known_sfx st sfx)) then 1 else 0)\<rparr>"
proof -
  define w :: nat where "w = 2 ^ 32"
  define wi :: int where "wi = 2 ^ 32"
  show ?thesis
    unfolding SND_GetDelay_def rand_def Let_def w_def [symmetric] wi_def [symmetric]
    by (simp add: min_def)
qed

lemma S_StartSound_delay_result:
  assumes "sfx_started st sfx 0 = Inr dup"
  shows "S_StartSound_delay st h sfx =
     Inr (if dup
          then chan_upd h (\<lambda>c. c\<lparr>ch_delay := Some (dspclock st + fst (SND_GetDelay st sfx (1 / 10)))\<rparr>)
                 (snd (SND_GetDelay st sfx (1 / 10)))
          else st)"
  using assms
  by (simp add: S_StartSound_delay_def fmod_channel_defs case_prod_beta)

lemma S_StartSound_record_result:
  assumes "0 \<le> numSfxThisFrame st"
  shows "S_StartSound_record st sfx =
     Inr (if numSfxThisFrame st < 16
          then st\<lparr>sfxThisFrame := (sfxThisFrame st)(nat (numSfxThisFrame st) := Some sfx),
                  numSfxThisFrame := numSfxThisFrame st + 1\<rparr>
          else st)"
  using assms by (simp add: S_StartSound_record_def)

text \<open>What the allocator leaves alone.\<close>

lemma PickSoundSlot_frame [simp]:
  "play_results (snd (SND_PickSoundSlot k st e c)) = play_results st"
  "play_calls (snd (SND_PickSoundSlot k st e c)) = play_calls st"
  "next_channel (snd (SND_PickSoundSlot k st e c)) = next_channel st"
  "known_sfx (snd (SND_PickSoundSlot k st e c)) = known_sfx st"
  "viewentity (snd (SND_PickSoundSlot k st e c)) = viewentity st"
  "numSfxThisFrame (snd (SND_PickSoundSlot k st e c)) = numSfxThisFrame st"
  "sfxThisFrame (snd (SND_PickSoundSlot k st e c)) = sfxThisFrame st"
  "dspclock (snd (SND_PickSoundSlot k st e c)) = dspclock st"
  "rand_values (snd (SND_PickSoundSlot k st e c)) = rand_values st"
  "rand_calls (snd (SND_PickSoundSlot k st e c)) = rand_calls st"
  "fmod_samplerate (snd (SND_PickSoundSlot k st e c)) = fmod_samplerate st"
  "fmod_system (snd (SND_PickSoundSlot k st e c)) = fmod_system st"
  "nosound (snd (SND_PickSoundSlot k st e c)) = nosound st"
proof -
  have "\<exists>es zh zn fc. snd (SND_PickSoundSlot k st e c) =
          st\<lparr>entsounds := es, zone_heap := zh, zone_next := zn, fmod_channels := fc\<rparr>"
  proof (cases "e < 0 \<or> e \<ge> MAX_CHANNELS k \<or> c = 0 \<or> c > 7")
    case True
    have "snd (SND_PickSoundSlot k st e c) =
            st\<lparr>entsounds := entsounds st,
               zone_heap := (zone_heap st)(zone_next st \<mapsto> \<lparr>zone = True, channel = None, dist_mult = 0\<rparr>),
               zone_next := zone_next st + 1, fmod_channels := fmod_channels st\<rparr>"
      by (simp add: PickSoundSlot_anonymous [OF True])
    then show ?thesis by blast
  next
    case False
    then have t: "0 \<le> e" "e < MAX_CHANNELS k" "c \<noteq> 0" "c \<le> 7"
      by simp_all
    show ?thesis
    proof (cases "channel (entsounds st e (if c < 0 then 0 else c))")
      case None
      have "snd (SND_PickSoundSlot k st e c) =
            st\<lparr>entsounds := (entsounds st)(e := (entsounds st e)
                  ((if c < 0 then 0 else c) :=
                     (entsounds st e (if c < 0 then 0 else c))\<lparr>channel := None, zone := False\<rparr>)),
               zone_heap := zone_heap st, zone_next := zone_next st,
               fmod_channels := fmod_channels st\<rparr>"
        by (simp add: PickSoundSlot_tracked [OF t] None)
      then show ?thesis by blast
    next
      case (Some old)
      have "snd (SND_PickSoundSlot k st e c) =
            st\<lparr>entsounds := (entsounds st)(e := (entsounds st e)
                  ((if c < 0 then 0 else c) :=
                     (entsounds st e (if c < 0 then 0 else c))\<lparr>channel := None, zone := False\<rparr>)),
               zone_heap := zone_heap st, zone_next := zone_next st,
               fmod_channels := (fmod_channels st)(old := map_option
                 (\<lambda>c. c\<lparr>ch_fade := Some (dspclock st + 64, 0), ch_mode := FMOD_LOOP_OFF\<rparr>)
                 (fmod_channels st old))\<rparr>"
        by (simp add: PickSoundSlot_tracked [OF t] Some)
      then show ?thesis by blast
    qed
  qed
  then obtain es zh zn fc where
    "snd (SND_PickSoundSlot k st e c) =
       st\<lparr>entsounds := es, zone_heap := zh, zone_next := zn, fmod_channels := fc\<rparr>"
    by blast
  then show
    "play_results (snd (SND_PickSoundSlot k st e c)) = play_results st"
    "play_calls (snd (SND_PickSoundSlot k st e c)) = play_calls st"
    "next_channel (snd (SND_PickSoundSlot k st e c)) = next_channel st"
    "known_sfx (snd (SND_PickSoundSlot k st e c)) = known_sfx st"
    "viewentity (snd (SND_PickSoundSlot k st e c)) = viewentity st"
    "numSfxThisFrame (snd (SND_PickSoundSlot k st e c)) = numSfxThisFrame st"
    "sfxThisFrame (snd (SND_PickSoundSlot k st e c)) = sfxThisFrame st"
    "dspclock (snd (SND_PickSoundSlot k st e c)) = dspclock st"
    "rand_values (snd (SND_PickSoundSlot k st e c)) = rand_values st"
    "rand_calls (snd (SND_PickSoundSlot k st e c)) = rand_calls st"
    "fmod_samplerate (snd (SND_PickSoundSlot k st e c)) = fmod_samplerate st"
    "fmod_system (snd (SND_PickSoundSlot k st e c)) = fmod_system st"
    "nosound (snd (SND_PickSoundSlot k st e c)) = nosound st"
    by simp_all
qed

lemma SetChannelAttributes_eq:
  "SND_FMOD_SetChannelAttributes h sfx origin vol st =
     st\<lparr>fmod_channels := (fmod_channels st)(h := map_option
          (\<lambda>c. c\<lparr>ch_position := (case origin of (x, y, z) \<Rightarrow> (x, z, y)),
                  ch_volume := vol,
                  ch_mode := (if 0 \<le> loopstart (known_sfx st sfx)
                              then FMOD_LOOP_NORMAL else FMOD_LOOP_OFF),
                  ch_looppoints := (if 0 \<le> loopstart (known_sfx st sfx)
                                    then Some (loopstart (known_sfx st sfx),
                                               loopend (known_sfx st sfx))
                                    else ch_looppoints c)\<rparr>)
          (fmod_channels st h))\<rparr>"
  by (simp add: SND_FMOD_SetChannelAttributes_def Let_def chan_upd_eq fmod_channel_defs
      option.map_comp comp_def)

text \<open>
  \<open>S_StartSound\<close> on its main path, up to the duplicate scan: the sound is resident
  after \<open>S_LoadSound\<close> and the engine starts a voice.
\<close>

lemma S_StartSound_unfold:
  assumes "fmod_system st" and "nosound st = 0"
    and "S_LoadSound st sfx = Inr st1" and "sound (known_sfx st1 sfx) = Some s"
    and "play_results st1 (play_calls st1) = FMOD_OK"
    and "SND_PickSoundSlot k st1 entnum entchannel = (slot, st2)"
  shows "S_StartSound k st entnum entchannel (Some sfx) origin fvol a =
     (case S_StartSound_delay
             ((slot_upd slot (\<lambda>x. x\<lparr>channel := Some (next_channel st1),
                                      dist_mult := a / sound_nominal_clip_dist\<rparr>)
                 (st2\<lparr>play_calls := play_calls st1 + 1,
                      next_channel := next_channel st1 + 1\<rparr>))
                \<lparr>fmod_channels := (fmod_channels st2)(next_channel st1 \<mapsto>
                       \<lparr>ch_sound = s, ch_paused = True,
                        ch_position = (case origin of (x, y, z) \<Rightarrow> (x, z, y)),
                        ch_volume = fvol,
                        ch_mode = (if 0 \<le> loopstart (known_sfx st1 sfx)
                                   then FMOD_LOOP_NORMAL else FMOD_LOOP_OFF),
                        ch_looppoints = (if 0 \<le> loopstart (known_sfx st1 sfx)
                                         then Some (loopstart (known_sfx st1 sfx),
                                                    loopend (known_sfx st1 sfx))
                                         else None),
                        ch_level3d = (if entchannel < 0 \<or> entnum = viewentity st1 then 0 else 1),
                        ch_priority = (if entchannel < 0 \<or> entnum = viewentity st1
                                       then 64 else 128),
                        ch_userdata = Some slot, ch_callback = True, ch_fade = None,
                        ch_delay = None\<rparr>)\<rparr>)
             (next_channel st1) sfx of
        Inl e \<Rightarrow> Inl e
      | Inr st8 \<Rightarrow>
          (case S_StartSound_record st8 sfx of
             Inl e \<Rightarrow> Inl e
           | Inr st9 \<Rightarrow> Inr (FMOD_Channel_SetPaused (next_channel st1) False st9)))"
proof -
  have st2: "st2 = snd (SND_PickSoundSlot k st1 entnum entchannel)"
    by (simp add: assms(6))
  have fr: "play_results st2 = play_results st1" "play_calls st2 = play_calls st1"
    "next_channel st2 = next_channel st1" "known_sfx st2 = known_sfx st1"
    "viewentity st2 = viewentity st1"
    by (simp_all add: st2)
  have ps: "FMOD_System_PlaySound st2 s True =
     (FMOD_OK, next_channel st1,
      st2\<lparr>play_calls := play_calls st1 + 1,
          fmod_channels := (fmod_channels st2)(next_channel st1 \<mapsto>
            \<lparr>ch_sound = s, ch_paused = True, ch_position = (0, 0, 0),
             ch_volume = 1, ch_mode = FMOD_LOOP_OFF, ch_looppoints = None,
             ch_level3d = 1, ch_priority = 128, ch_userdata = None,
             ch_callback = False, ch_fade = None, ch_delay = None\<rparr>),
          next_channel := next_channel st1 + 1\<rparr>)"
    using assms(5) by (simp add: PlaySound_ok fr)
  show ?thesis
    using assms(1-4)
    by (cases slot)
       (simp_all add: S_StartSound_def assms(6) fr ps
          SetChannelAttributes_eq Let_def slot_upd_Ent slot_upd_Zone chan_upd_eq
          fmod_channel_defs)
qed

lemma SND_GetDelay_cong:
  assumes "known_sfx st' = known_sfx st" and "rand_values st' = rand_values st"
    and "rand_calls st' = rand_calls st" and "fmod_samplerate st' = fmod_samplerate st"
  shows "fst (SND_GetDelay st' sfx m) = fst (SND_GetDelay st sfx m)"
    and "rand_calls (snd (SND_GetDelay st' sfx m)) = rand_calls (snd (SND_GetDelay st sfx m))"
  unfolding SND_GetDelay_value SND_GetDelay_state assms by simp_all

lemma sfx_started_cong:
  assumes "numSfxThisFrame st' = numSfxThisFrame st" and "sfxThisFrame st' = sfxThisFrame st"
    and "0 \<le> i" and "numSfxThisFrame st \<le> 16"
  shows "sfx_started st' sfx i = sfx_started st sfx i"
  using assms by (simp add: sfx_started_eq)

text \<open>
  The whole of \<open>S_StartSound\<close> on its main path, when the count of recorded sounds is
  within the array: \<open>dup\<close> says whether the sound was already started this frame.
\<close>

lemma S_StartSound_result:
  assumes "fmod_system st" and "nosound st = 0"
    and "S_LoadSound st sfx = Inr st1" and "sound (known_sfx st1 sfx) = Some s"
    and "play_results st1 (play_calls st1) = FMOD_OK"
    and "SND_PickSoundSlot k st1 entnum entchannel = (slot, st2)"
    and "0 \<le> numSfxThisFrame st1" and "numSfxThisFrame st1 \<le> 16"
    and "sfx_started st1 sfx 0 = Inr dup"
  shows "S_StartSound k st entnum entchannel (Some sfx) origin fvol a =
     Inr ((slot_upd slot (\<lambda>x. x\<lparr>channel := Some (next_channel st1),
                                   dist_mult := a / sound_nominal_clip_dist\<rparr>)
            (st2\<lparr>play_calls := play_calls st1 + 1,
                 next_channel := next_channel st1 + 1\<rparr>))
          \<lparr>rand_calls := (if dup then rand_calls (snd (SND_GetDelay st1 sfx (1 / 10)))
                          else rand_calls st1),
           sfxThisFrame := (if numSfxThisFrame st1 < 16
                            then (sfxThisFrame st1)(nat (numSfxThisFrame st1) := Some sfx)
                            else sfxThisFrame st1),
           numSfxThisFrame := (if numSfxThisFrame st1 < 16 then numSfxThisFrame st1 + 1
                               else numSfxThisFrame st1),
           fmod_channels := (fmod_channels st2)(next_channel st1 \<mapsto>
             \<lparr>ch_sound = s, ch_paused = False,
              ch_position = (case origin of (x, y, z) \<Rightarrow> (x, z, y)),
              ch_volume = fvol,
              ch_mode = (if 0 \<le> loopstart (known_sfx st1 sfx)
                         then FMOD_LOOP_NORMAL else FMOD_LOOP_OFF),
              ch_looppoints = (if 0 \<le> loopstart (known_sfx st1 sfx)
                               then Some (loopstart (known_sfx st1 sfx),
                                          loopend (known_sfx st1 sfx))
                               else None),
              ch_level3d = (if entchannel < 0 \<or> entnum = viewentity st1 then 0 else 1),
              ch_priority = (if entchannel < 0 \<or> entnum = viewentity st1 then 64 else 128),
              ch_userdata = Some slot, ch_callback = True, ch_fade = None,
              ch_delay = (if dup
                          then Some (dspclock st1 + fst (SND_GetDelay st1 sfx (1 / 10)))
                          else None)\<rparr>)\<rparr>)"
proof -
  define V where "V =
     \<lparr>ch_sound = s, ch_paused = True,
      ch_position = (case origin of (x, y, z) \<Rightarrow> (x, z, y)),
      ch_volume = fvol,
      ch_mode = (if 0 \<le> loopstart (known_sfx st1 sfx)
                 then FMOD_LOOP_NORMAL else FMOD_LOOP_OFF),
      ch_looppoints = (if 0 \<le> loopstart (known_sfx st1 sfx)
                       then Some (loopstart (known_sfx st1 sfx), loopend (known_sfx st1 sfx))
                       else None),
      ch_level3d = (if entchannel < 0 \<or> entnum = viewentity st1 then 0 else 1),
      ch_priority = (if entchannel < 0 \<or> entnum = viewentity st1 then 64 else (128::int)),
      ch_userdata = Some slot, ch_callback = True, ch_fade = None,
      ch_delay = None\<rparr>"
  define st7 where "st7 =
     (slot_upd slot (\<lambda>x. x\<lparr>channel := Some (next_channel st1),
                              dist_mult := a / sound_nominal_clip_dist\<rparr>)
        (st2\<lparr>play_calls := play_calls st1 + 1, next_channel := next_channel st1 + 1\<rparr>))
       \<lparr>fmod_channels := (fmod_channels st2)(next_channel st1 \<mapsto> V)\<rparr>"
  have st2: "st2 = snd (SND_PickSoundSlot k st1 entnum entchannel)"
    by (simp add: assms(6))
  have f7: "numSfxThisFrame st7 = numSfxThisFrame st1" "sfxThisFrame st7 = sfxThisFrame st1"
    "known_sfx st7 = known_sfx st1" "rand_values st7 = rand_values st1"
    "rand_calls st7 = rand_calls st1" "fmod_samplerate st7 = fmod_samplerate st1"
    "dspclock st7 = dspclock st1"
    by (cases slot; simp add: st7_def st2 slot_upd_Ent slot_upd_Zone)+
  have start: "S_StartSound k st entnum entchannel (Some sfx) origin fvol a =
     (case S_StartSound_delay st7 (next_channel st1) sfx of
        Inl e \<Rightarrow> Inl e
      | Inr st8 \<Rightarrow>
          (case S_StartSound_record st8 sfx of
             Inl e \<Rightarrow> Inl e
           | Inr st9 \<Rightarrow> Inr (FMOD_Channel_SetPaused (next_channel st1) False st9)))"
    unfolding st7_def V_def by (rule S_StartSound_unfold [OF assms(1-6)])
  have dup7: "sfx_started st7 sfx 0 = Inr dup"
    using sfx_started_cong [OF f7(1,2) _ assms(8), of 0 sfx] assms(9) by simp
  have gd: "fst (SND_GetDelay st7 sfx (1 / 10)) = fst (SND_GetDelay st1 sfx (1 / 10))"
    "rand_calls (snd (SND_GetDelay st7 sfx (1 / 10))) = rand_calls (snd (SND_GetDelay st1 sfx (1 / 10)))"
    by (rule SND_GetDelay_cong [OF f7(3-6)])+
  have gs: "snd (SND_GetDelay st7 sfx (1 / 10)) =
              st7\<lparr>rand_calls := rand_calls (snd (SND_GetDelay st1 sfx (1 / 10)))\<rparr>"
    by (simp add: SND_GetDelay_state f7(3) f7(5) [symmetric])
  define st8 where "st8 =
     (if dup
      then chan_upd (next_channel st1)
             (\<lambda>c. c\<lparr>ch_delay := Some (dspclock st1 + fst (SND_GetDelay st1 sfx (1 / 10)))\<rparr>)
             (st7\<lparr>rand_calls := rand_calls (snd (SND_GetDelay st1 sfx (1 / 10)))\<rparr>)
      else st7)"
  have delay: "S_StartSound_delay st7 (next_channel st1) sfx = Inr st8"
    by (simp add: S_StartSound_delay_result [OF dup7] st8_def gd(1) gs f7(7))
  have n8: "numSfxThisFrame st8 = numSfxThisFrame st1" "sfxThisFrame st8 = sfxThisFrame st1"
    by (simp_all add: st8_def chan_upd_eq f7)
  have rec: "S_StartSound_record st8 sfx =
     Inr (if numSfxThisFrame st1 < 16
          then st8\<lparr>sfxThisFrame := (sfxThisFrame st1)(nat (numSfxThisFrame st1) := Some sfx),
                   numSfxThisFrame := numSfxThisFrame st1 + 1\<rparr>
          else st8)"
    using S_StartSound_record_result [of st8 sfx] assms(7) by (simp add: n8)
  have fin: "S_StartSound k st entnum entchannel (Some sfx) origin fvol a =
     Inr (FMOD_Channel_SetPaused (next_channel st1) False
            (if numSfxThisFrame st1 < 16
             then st8\<lparr>sfxThisFrame := (sfxThisFrame st1)(nat (numSfxThisFrame st1) := Some sfx),
                      numSfxThisFrame := numSfxThisFrame st1 + 1\<rparr>
             else st8))"
    by (simp add: start delay rec)
  have fr2: "sfxThisFrame st1 = sfxThisFrame st2" "numSfxThisFrame st1 = numSfxThisFrame st2"
    "rand_calls st1 = rand_calls st2"
    by (simp_all add: st2)
  show ?thesis
    unfolding fin
    by (cases slot; cases dup; cases "numSfxThisFrame st1 < 16")
       (simp_all add: st8_def st7_def V_def chan_upd_eq FMOD_Channel_SetPaused_def
          slot_upd_Ent slot_upd_Zone fr2 split del: if_split)
qed

section \<open>Static sounds\<close>

text \<open>The whole of \<open>S_StaticSound\<close> on its main path.\<close>

lemma S_StaticSound_result:
  assumes "fmod_system st"
    and "S_LoadSound st sfx = Inr st1" and "sound (known_sfx st1 sfx) = Some s"
    and "0 \<le> loopstart (known_sfx st1 sfx)"
    and "play_results st1 (play_calls st1) = FMOD_OK"
  shows "S_StaticSound k st (Some sfx) origin vol a =
     Inr (st1\<lparr>play_calls := play_calls st1 + 1,
             next_channel := next_channel st1 + 1,
             zone_next := zone_next st1 + 1,
             zone_heap := (zone_heap st1)(zone_next st1 \<mapsto>
               \<lparr>zone = True, channel = Some (next_channel st1),
                dist_mult = (a / 64) / sound_nominal_clip_dist\<rparr>),
             rand_calls := rand_calls (snd (SND_GetDelay st1 sfx (2 / 10))),
             fmod_channels := (fmod_channels st1)(next_channel st1 \<mapsto>
               \<lparr>ch_sound = s, ch_paused = False,
                ch_position = (case origin of (x, y, z) \<Rightarrow> (x, z, y)),
                ch_volume = vol / 255, ch_mode = FMOD_LOOP_NORMAL,
                ch_looppoints = Some (loopstart (known_sfx st1 sfx), loopend (known_sfx st1 sfx)),
                ch_level3d = 1, ch_priority = 128,
                ch_userdata = Some (ZoneSlot (zone_next st1)), ch_callback = True,
                ch_fade = None,
                ch_delay = Some (dspclock st1 + fst (SND_GetDelay st1 sfx (2 / 10)))\<rparr>)\<rparr>)"
proof -
  define V where "V =
     \<lparr>ch_sound = s, ch_paused = True,
      ch_position = (case origin of (x, y, z) \<Rightarrow> (x, z, y)),
      ch_volume = vol / 255, ch_mode = FMOD_LOOP_NORMAL,
      ch_looppoints = Some (loopstart (known_sfx st1 sfx), loopend (known_sfx st1 sfx)),
      ch_level3d = 1, ch_priority = (128::int),
      ch_userdata = Some (ZoneSlot (zone_next st1)), ch_callback = True,
      ch_fade = None, ch_delay = None\<rparr>"
  define st6 where "st6 =
     st1\<lparr>play_calls := play_calls st1 + 1,
         next_channel := next_channel st1 + 1,
         zone_next := zone_next st1 + 1,
         zone_heap := (zone_heap st1)(zone_next st1 \<mapsto>
           \<lparr>zone = True, channel = Some (next_channel st1),
            dist_mult = (a / 64) / sound_nominal_clip_dist\<rparr>),
         fmod_channels := (fmod_channels st1)(next_channel st1 \<mapsto> V)\<rparr>"
  have f6: "known_sfx st6 = known_sfx st1" "rand_values st6 = rand_values st1"
    "rand_calls st6 = rand_calls st1" "fmod_samplerate st6 = fmod_samplerate st1"
    by (simp_all add: st6_def)
  have gd: "fst (SND_GetDelay st6 sfx (2 / 10)) = fst (SND_GetDelay st1 sfx (2 / 10))"
    "rand_calls (snd (SND_GetDelay st6 sfx (2 / 10))) = rand_calls (snd (SND_GetDelay st1 sfx (2 / 10)))"
    by (rule SND_GetDelay_cong [OF f6])+
  have gs: "snd (SND_GetDelay st6 sfx (2 / 10)) =
              st6\<lparr>rand_calls := rand_calls (snd (SND_GetDelay st1 sfx (2 / 10)))\<rparr>"
    by (simp add: SND_GetDelay_state f6(1) f6(3) [symmetric])
  have start: "S_StaticSound k st (Some sfx) origin vol a =
     (case SND_GetDelay st6 sfx (2 / 10) of
        (d, st7) \<Rightarrow>
          Inr (FMOD_Channel_SetPaused (next_channel st1) False
                 (FMOD_Channel_SetDelay (next_channel st1) (dspclock st1 + d) st7)))"
    using assms
    by (simp add: S_StaticSound_def PlaySound_ok SetChannelAttributes_eq
        PickSoundSlot_anonymous slot_upd_Zone chan_upd_eq fmod_channel_defs st6_def V_def Let_def)
  obtain d st7 where g: "SND_GetDelay st6 sfx (2 / 10) = (d, st7)"
    by (cases "SND_GetDelay st6 sfx (2 / 10)")
  have d: "d = fst (SND_GetDelay st1 sfx (2 / 10))"
    using gd(1) by (simp only: g fst_conv)
  have s7: "st7 = st6\<lparr>rand_calls := rand_calls (snd (SND_GetDelay st1 sfx (2 / 10)))\<rparr>"
    using gs by (simp only: g snd_conv)
  show ?thesis
    unfolding start g
    by (simp add: d s7 st6_def V_def chan_upd_eq fmod_channel_defs)
qed

section \<open>The distance multiplier of a started sound\<close>

lemma sfx_started_total:
  assumes "0 \<le> numSfxThisFrame st" and "numSfxThisFrame st \<le> 16"
  obtains dup where "sfx_started st sfx 0 = Inr dup"
  using sfx_started_eq [of 0 st sfx] assms by simp

lemma PickSoundSlot_usable:
  "\<exists>x. slot_get (snd (SND_PickSoundSlot k st e c)) (fst (SND_PickSoundSlot k st e c)) = Some x"
proof (cases "e < 0 \<or> e \<ge> MAX_CHANNELS k \<or> c = 0 \<or> c > 7")
  case True
  then show ?thesis
    by (simp add: PickSoundSlot_anonymous slot_get_def)
next
  case False
  then have t: "0 \<le> e" "e < MAX_CHANNELS k" "c \<noteq> 0" "c \<le> 7"
    by simp_all
  show ?thesis
    by (simp add: PickSoundSlot_tracked [OF t] slot_get_def)
qed

lemma slot_get_upd_same:
  "slot_get (slot_upd p f st) p = map_option f (slot_get st p)"
  by (cases p) (simp_all add: slot_get_def slot_upd_Ent slot_upd_Zone)

lemma slot_get_frame [simp]:
  "slot_get (st\<lparr>play_calls := a\<rparr>) = slot_get st"
  "slot_get (st\<lparr>next_channel := b\<rparr>) = slot_get st"
  "slot_get (st\<lparr>rand_calls := c\<rparr>) = slot_get st"
  "slot_get (st\<lparr>sfxThisFrame := d\<rparr>) = slot_get st"
  "slot_get (st\<lparr>numSfxThisFrame := e\<rparr>) = slot_get st"
  "slot_get (st\<lparr>fmod_channels := f\<rparr>) = slot_get st"
  by (rule ext, simp add: slot_get_def split: slot_ptr.splits)+

lemma S_StartSound_slot:
  assumes "fmod_system st" and "nosound st = 0"
    and "S_LoadSound st sfx = Inr st1" and "sound (known_sfx st1 sfx) = Some s"
    and "play_results st1 (play_calls st1) = FMOD_OK"
    and "0 \<le> numSfxThisFrame st1" and "numSfxThisFrame st1 \<le> 16"
  shows "case S_StartSound k st entnum entchannel (Some sfx) origin fvol a of
           Inl e \<Rightarrow> False
         | Inr st' \<Rightarrow>
             map_option dist_mult (slot_get st' (fst (SND_PickSoundSlot k st1 entnum entchannel)))
               = Some (a / sound_nominal_clip_dist)
             \<and> map_option channel (slot_get st' (fst (SND_PickSoundSlot k st1 entnum entchannel)))
               = Some (Some (next_channel st1))
             \<and> FMOD_Channel_GetUserData st' (next_channel st1)
               = Some (fst (SND_PickSoundSlot k st1 entnum entchannel))"
proof -
  obtain slot st2 where pick: "SND_PickSoundSlot k st1 entnum entchannel = (slot, st2)"
    by (cases "SND_PickSoundSlot k st1 entnum entchannel")
  obtain dup where dup: "sfx_started st1 sfx 0 = Inr dup"
    using assms(6,7) by (rule sfx_started_total)
  obtain x where x: "slot_get st2 slot = Some x"
    using PickSoundSlot_usable [of k st1 entnum entchannel] by (auto simp: pick)
  show ?thesis
    unfolding S_StartSound_result [OF assms(1-5) pick assms(6,7) dup] pick
    by (simp add: slot_get_upd_same x FMOD_Channel_GetUserData_def)
qed

lemma S_StaticSound_slot:
  assumes "fmod_system st"
    and "S_LoadSound st sfx = Inr st1" and "sound (known_sfx st1 sfx) = Some s"
    and "0 \<le> loopstart (known_sfx st1 sfx)"
    and "play_results st1 (play_calls st1) = FMOD_OK"
  shows "case S_StaticSound k st (Some sfx) origin vol a of
           Inl e \<Rightarrow> False
         | Inr st' \<Rightarrow>
             slot_get st' (ZoneSlot (zone_next st1))
               = Some \<lparr>zone = True, channel = Some (next_channel st1),
                       dist_mult = (a / 64) / sound_nominal_clip_dist\<rparr>
             \<and> FMOD_Channel_GetUserData st' (next_channel st1) = Some (ZoneSlot (zone_next st1))"
  unfolding S_StaticSound_result [OF assms]
  by (simp add: slot_get_def FMOD_Channel_GetUserData_def)

lemma snd_ready_resident:
  "S_LoadSound snd_ready i = Inr snd_ready"
  by (simp add: S_LoadSound_resident)

text \<open>
  C7. A static sound whose asset is resident after \<open>S_LoadSound\<close> but has no loop
  start is rejected: the result is the state after the load with one more console line.
  No play request is made, no voice or slot is created or changed, and the record of
  this frame's sounds is untouched.
\<close>

theorem C7_static_sound_not_looped:
  assumes "fmod_system st"
    and "S_LoadSound st sfx = Inr st1" and "sound (known_sfx st1 sfx) \<noteq> None"
    and "loopstart (known_sfx st1 sfx) < 0"
  shows "S_StaticSound k st (Some sfx) origin vol a = Inr (Con_Printf ''Sound %s not looped'' st1)
    \<and> console (Con_Printf ''Sound %s not looped'' st1) = console st1 @ [''Sound %s not looped'']
    \<and> fmod_channels (Con_Printf ''Sound %s not looped'' st1) = fmod_channels st
    \<and> next_channel (Con_Printf ''Sound %s not looped'' st1) = next_channel st
    \<and> play_calls (Con_Printf ''Sound %s not looped'' st1) = play_calls st
    \<and> entsounds (Con_Printf ''Sound %s not looped'' st1) = entsounds st
    \<and> zone_heap (Con_Printf ''Sound %s not looped'' st1) = zone_heap st
    \<and> zone_next (Con_Printf ''Sound %s not looped'' st1) = zone_next st
    \<and> ambients (Con_Printf ''Sound %s not looped'' st1) = ambients st
    \<and> sfxThisFrame (Con_Printf ''Sound %s not looped'' st1) = sfxThisFrame st
    \<and> numSfxThisFrame (Con_Printf ''Sound %s not looped'' st1) = numSfxThisFrame st
    \<and> rand_calls (Con_Printf ''Sound %s not looped'' st1) = rand_calls st"
proof -
  have load: "fmod_channels st1 = fmod_channels st" "next_channel st1 = next_channel st"
    "play_calls st1 = play_calls st" "entsounds st1 = entsounds st"
    "zone_heap st1 = zone_heap st" "zone_next st1 = zone_next st" "ambients st1 = ambients st"
    "sfxThisFrame st1 = sfxThisFrame st" "numSfxThisFrame st1 = numSfxThisFrame st"
    "rand_calls st1 = rand_calls st"
    using assms(2)
    by (auto simp add: S_LoadSound_def Let_def Con_Printf_def
        split: if_splits option.splits)
  have "S_StaticSound k st (Some sfx) origin vol a = Inr (Con_Printf ''Sound %s not looped'' st1)"
    using assms by (auto simp add: S_StaticSound_def)
  then show ?thesis
    by (simp add: Con_Printf_def load)
qed

text \<open>
  Loading the long file: both products wrap, and the loop points come out negative.
\<close>

lemma snd_long_wav_fields [simp]:
  "fmod_system snd_long_wav" "next_sound snd_long_wav = 8"
  "known_sfx snd_long_wav 8 =
     \<lparr>name = ''long.wav'', sound = None, loopstart = 0, loopend = 0, length_ms = 0\<rparr>"
  "sound_files snd_long_wav ''sound/long.wav'' =
     Some \<lparr>info = \<lparr>wav_channels = 1, wav_loopstart = 3000000, wav_rate = 44100,
                    wav_samples = 4000000\<rparr>,
            create_result = FMOD_OK, sound_length = 90702\<rparr>"
  by (simp_all add: snd_long_wav_def)

lemma snd_long_wav_load:
  "S_LoadSound snd_long_wav 8 =
     Inr (snd_long_wav
            \<lparr>known_sfx := (known_sfx snd_long_wav)
               (8 := \<lparr>name = ''long.wav'', sound = Some 8, loopstart = - 29364,
                       loopend = - 6688, length_ms = 90702\<rparr>),
             next_sound := 9\<rparr>)"
proof -
  have w: "wrap_int 3000000000 = - 1294967296" "wrap_int 4000000000 = - 294967296"
    by (simp_all add: wrap_int_def)
  have d: "c_div (- 1294967296) 44100 = - 29364" "c_div (- 294967296) 44100 = - 6688"
    by (simp_all add: c_div_def)
  show ?thesis
    by (simp add: S_LoadSound_def w d Let_def)
qed

theorem C7_static_sound_not_looped_witness:
  "S_StaticSound quake_constants snd_long_wav (Some 8) (0, 0, 0) 255 64
     = Inr (Con_Printf ''Sound %s not looped''
              (snd_long_wav
                 \<lparr>known_sfx := (known_sfx snd_long_wav)
                    (8 := \<lparr>name = ''long.wav'', sound = Some 8, loopstart = - 29364,
                            loopend = - 6688, length_ms = 90702\<rparr>),
                  next_sound := 9\<rparr>))
   \<and> S_StaticSound quake_constants snd_ready (Some 2) (0, 0, 0) 255 64
     = Inr (Con_Printf ''Sound %s not looped'' snd_ready)"
  using C7_static_sound_not_looped [where st = snd_long_wav and sfx = 8
      and ?st1.0 = "snd_long_wav
                 \<lparr>known_sfx := (known_sfx snd_long_wav)
                    (8 := \<lparr>name = ''long.wav'', sound = Some 8, loopstart = - 29364,
                            loopend = - 6688, length_ms = 90702\<rparr>),
                  next_sound := 9\<rparr>"
      and k = quake_constants and origin = "(0, 0, 0)" and vol = 255 and a = 64]
    C7_static_sound_not_looped [where st = snd_ready and sfx = 2 and ?st1.0 = snd_ready
      and k = quake_constants and origin = "(0, 0, 0)" and vol = 255 and a = 64]
  by (simp add: snd_ready_resident snd_long_wav_load)

section \<open>One voice for each slot of the grid\<close>


lemma snd_playing_fields [simp]:
  "fmod_system (snd_playing m)" "nosound (snd_playing m) = 0"
  "numSfxThisFrame (snd_playing m) = 1"
  "sfxThisFrame (snd_playing m) = (\<lambda>i. None)(0 := Some 2)"
  "known_sfx (snd_playing m) = known_sfx snd_ready"
  "play_results (snd_playing m) = (\<lambda>n. FMOD_OK)" "play_calls (snd_playing m) = 1"
  "next_channel (snd_playing m) = 1"
  "channel (entsounds (snd_playing m) 5 1) = Some 0"
  "fmod_channels (snd_playing m) 1 = None" "fmod_channels (snd_playing m) (Suc 0) = None"
  "fmod_channels (snd_playing m) 0 =
     Some \<lparr>ch_sound = 2, ch_paused = False, ch_position = (0, 0, 0), ch_volume = 1,
           ch_mode = FMOD_LOOP_OFF, ch_looppoints = None, ch_level3d = 1, ch_priority = 128,
           ch_userdata = Some (EntSlot 5 1), ch_callback = True, ch_fade = None,
           ch_delay = None\<rparr>"
  "dspclock (snd_playing m) = 0" "rand_values (snd_playing m) = (\<lambda>n. 4200 + 42 * n)"
  "rand_calls (snd_playing m) = 0" "fmod_samplerate (snd_playing m) = 48000"
  by (simp_all add: snd_playing_def)

lemma snd_playing_resident:
  "S_LoadSound (snd_playing m) i = Inr (snd_playing m)"
  by (simp add: S_LoadSound_resident)


section \<open>Ambient sounds\<close>



lemma ambient_frame [simp]:
  "ambient_fade_step (st\<lparr>fmod_channels := fc\<rparr>) = ambient_fade_step st"
  "ambient_vol (st\<lparr>fmod_channels := fc\<rparr>) = ambient_vol st"
  by (rule ext, rule ext, simp add: ambient_fade_step_def)
     (rule ext, simp add: ambient_vol_def)

text \<open>One pass of the loop body changes the volume of the one voice it names.\<close>

lemma ambient_body_other:
  "\<exists>fc. S_UpdateAmbientSounds_body leaf j s = s\<lparr>fmod_channels := fc\<rparr>
        \<and> (\<forall>g. ambients s j \<noteq> Some g \<longrightarrow> fc g = fmod_channels s g)"
proof (cases "ambients s j")
  case None
  have "S_UpdateAmbientSounds_body leaf j s = s\<lparr>fmod_channels := fmod_channels s\<rparr>"
    by (simp add: S_UpdateAmbientSounds_body_def None)
  then show ?thesis by blast
next
  case (Some chan)
  have "\<exists>F. S_UpdateAmbientSounds_body leaf j s = chan_upd chan F s"
    by (auto simp add: S_UpdateAmbientSounds_body_def Some FMOD_Channel_SetVolume_def
        FMOD_Channel_GetVolume_def chan_upd_def split: option.splits)
  then obtain F where "S_UpdateAmbientSounds_body leaf j s = chan_upd chan F s" ..
  then have "S_UpdateAmbientSounds_body leaf j s =
      s\<lparr>fmod_channels := (fmod_channels s)(chan := map_option F (fmod_channels s chan))\<rparr>"
    by (simp add: chan_upd_eq)
  moreover have "\<forall>g. ambients s j \<noteq> Some g \<longrightarrow>
      ((fmod_channels s)(chan := map_option F (fmod_channels s chan))) g = fmod_channels s g"
    by (simp add: Some)
  ultimately show ?thesis by blast
qed








lemma snd_ambient_fields [simp]:
  "ambients (snd_ambient conn lvl v) = (\<lambda>i. None)(0 := Some 0)"
  "connected (snd_ambient conn lvl v) = conn"
  "Mod_PointInLeaf (snd_ambient conn lvl v) = (\<lambda>p. Some (\<lambda>i. lvl))"
  "fmod_channels (snd_ambient conn lvl v) 0 =
     Some \<lparr>ch_sound = 0, ch_paused = False, ch_position = (0, 0, 0), ch_volume = v,
           ch_mode = FMOD_LOOP_NORMAL, ch_looppoints = Some (0, 500), ch_level3d = 0,
           ch_priority = 128, ch_userdata = None, ch_callback = False, ch_fade = None,
           ch_delay = None\<rparr>"
  "ambient_level (snd_ambient conn lvl v) = 3 / 10"
  "ambient_fade (snd_ambient conn lvl v) = 100"
  "host_frametime (snd_ambient conn lvl v) = 1 / 128"
  by (simp_all add: snd_ambient_def)





section \<open>The record of the sounds of a frame\<close>

text \<open>What loading a sound, the ambient loop and an engine update leave alone.\<close>

lemma S_LoadSound_changes:
  assumes "S_LoadSound st s = Inr st1"
  shows "\<exists>ks ns cs. st1 = st\<lparr>known_sfx := ks, next_sound := ns, console := cs\<rparr>"
proof -
  have same: "st = st\<lparr>known_sfx := known_sfx st, next_sound := next_sound st, console := console st\<rparr>"
    by simp
  have msg: "Con_Printf m st =
      st\<lparr>known_sfx := known_sfx st, next_sound := next_sound st, console := console st @ [m]\<rparr>" for m
    by (simp add: Con_Printf_def)
  show ?thesis
  proof (cases "\<not> fmod_system st \<or> sound (known_sfx st s) \<noteq> None")
    case True
    then have "st1 = st"
      using assms by (auto simp add: S_LoadSound_def split: if_splits)
    then show ?thesis
      using same by blast
  next
    case False
    show ?thesis
    proof (cases "sound_files st (take 255 (''sound/'' @ name (known_sfx st s)))")
      case None
      then have "st1 = Con_Printf ''Couldn't load %s'' st"
        using assms False by (simp add: S_LoadSound_def)
      then show ?thesis
        using msg by blast
    next
      case (Some f)
      consider (bad) m where "st1 = Con_Printf m st"
        | (ok) x where "st1 = st\<lparr>known_sfx := (known_sfx st)(s := x), next_sound := next_sound st + 1\<rparr>"
        using assms False Some
        by (auto simp add: S_LoadSound_def Let_def split: if_splits)
      then show ?thesis
      proof cases
        case bad
        then show ?thesis using msg by blast
      next
        case ok
        then have "st1 = st\<lparr>known_sfx := (known_sfx st)(s := x),
                          next_sound := next_sound st + 1, console := console st\<rparr>"
          by simp
        then show ?thesis by blast
      qed
    qed
  qed
qed

lemma S_LoadSound_no_bounds_fault:
  "S_LoadSound st s \<noteq> Inl OutOfBounds"
  by (simp add: S_LoadSound_def Let_def split: option.splits)

lemma SND_FMOD_Callback_changes:
  assumes "SND_FMOD_Callback st h b = Inr st1"
  shows "\<exists>zh. st1 = st\<lparr>zone_heap := zh\<rparr>"
proof -
  have "st1 = st \<or> (\<exists>a. st1 = st\<lparr>zone_heap := (zone_heap st)(a := None)\<rparr>)"
    using assms
    by (auto simp add: SND_FMOD_Callback_def Z_Free_def
        split: if_splits option.splits slot_ptr.splits)
  moreover have "st = st\<lparr>zone_heap := zone_heap st\<rparr>"
    by simp
  ultimately show ?thesis by metis
qed

lemma SND_FMOD_Callback_no_bounds_fault:
  "SND_FMOD_Callback st h b \<noteq> Inl OutOfBounds"
  by (simp add: SND_FMOD_Callback_def Z_Free_def split: option.splits slot_ptr.splits)

lemma end_channels_changes:
  "end_channels hs st = Inr st1 \<Longrightarrow> \<exists>fc zh. st1 = st\<lparr>fmod_channels := fc, zone_heap := zh\<rparr>"
proof (induction hs arbitrary: st)
  case Nil
  then have "st1 = st\<lparr>fmod_channels := fmod_channels st, zone_heap := zone_heap st\<rparr>"
    by simp
  then show ?case by blast
next
  case (Cons h hs)
  show ?case
  proof (cases "fmod_channels st h")
    case None
    then show ?thesis
      using Cons by simp
  next
    case (Some c)
    obtain st2 where cb: "(if ch_callback c then SND_FMOD_Callback st h True else Inr st) = Inr st2"
      and rest: "end_channels hs (st2\<lparr>fmod_channels := (fmod_channels st2)(h := None)\<rparr>) = Inr st1"
      using Cons.prems Some by (auto split: sum.splits)
    have "\<exists>zh. st2 = st\<lparr>zone_heap := zh\<rparr>"
    proof (cases "ch_callback c")
      case True
      then show ?thesis
        using cb SND_FMOD_Callback_changes by simp
    next
      case False
      then have "st2 = st\<lparr>zone_heap := zone_heap st\<rparr>"
        using cb by simp
      then show ?thesis by blast
    qed
    then obtain zh where st2: "st2 = st\<lparr>zone_heap := zh\<rparr>" ..
    from Cons.IH [OF rest] obtain fc zh' where
      "st1 = st2\<lparr>fmod_channels := (fmod_channels st2)(h := None)\<rparr>
               \<lparr>fmod_channels := fc, zone_heap := zh'\<rparr>"
      by blast
    then have "st1 = st\<lparr>fmod_channels := fc, zone_heap := zh'\<rparr>"
      by (simp add: st2)
    then show ?thesis by blast
  qed
qed

lemma end_channels_no_bounds_fault:
  "end_channels hs st \<noteq> Inl OutOfBounds"
proof (induction hs arbitrary: st)
  case Nil
  then show ?case by simp
next
  case (Cons h hs)
  then show ?case
    using SND_FMOD_Callback_no_bounds_fault
    by (auto split: option.splits sum.splits if_splits)
qed

lemma ambient_fold_changes:
  "\<exists>fc. fold (S_UpdateAmbientSounds_body leaf) js s = s\<lparr>fmod_channels := fc\<rparr>"
proof (induction js arbitrary: s)
  case Nil
  have "fold (S_UpdateAmbientSounds_body leaf) [] s = s\<lparr>fmod_channels := fmod_channels s\<rparr>"
    by simp
  then show ?case by blast
next
  case (Cons j js)
  obtain fc where fc: "S_UpdateAmbientSounds_body leaf j s = s\<lparr>fmod_channels := fc\<rparr>"
    using ambient_body_other [of leaf j s] by auto
  from Cons.IH [of "s\<lparr>fmod_channels := fc\<rparr>"] obtain fc' where
    "fold (S_UpdateAmbientSounds_body leaf) js (s\<lparr>fmod_channels := fc\<rparr>)
       = s\<lparr>fmod_channels := fc'\<rparr>"
    by auto
  then show ?case
    by (auto simp add: fc intro!: exI [of _ fc'])
qed

lemma S_UpdateAmbientSounds_changes:
  "\<exists>fc. S_UpdateAmbientSounds k st = st\<lparr>fmod_channels := fc\<rparr>"
  by (simp add: S_UpdateAmbientSounds_def ambient_fold_changes)

lemma FMOD_System_Update_changes:
  assumes "FMOD_System_Update st = Inr st1"
  shows "\<exists>fc zh. st1 = st\<lparr>update_calls := update_calls st + 1, fmod_channels := fc, zone_heap := zh\<rparr>"
  using end_channels_changes [OF assms [unfolded FMOD_System_Update_def]] by simp

text \<open>\<open>S_Update\<close>: what it changes, and that it empties the record.\<close>

lemma S_Update_changes:
  assumes "fmod_system st" and "S_Update k st origin forward right up = Inr st1"
  shows "\<exists>ov sv fc zh. st1 =
      st\<lparr>old_volume := ov, sfxvolume := sv, listener_origin := origin,
         update_calls := update_calls st + 1, fmod_channels := fc, zone_heap := zh,
         sfxThisFrame := (\<lambda>i. None), numSfxThisFrame := 0\<rparr>"
proof -
  define sa where "sa =
     (if old_volume st \<noteq> sfxvolume st
      then (let st = (if sfxvolume st < 0 then st\<lparr>sfxvolume := 0\<rparr>
                      else if sfxvolume st > 1 then st\<lparr>sfxvolume := 1\<rparr>
                      else st)
            in st\<lparr>old_volume := sfxvolume st\<rparr>)
      else st)"
  have "\<exists>ov sv. sa = st\<lparr>old_volume := ov, sfxvolume := sv\<rparr>"
  proof -
    have "sa = st\<lparr>old_volume := old_volume sa, sfxvolume := sfxvolume sa\<rparr>"
      by (simp add: sa_def Let_def)
    then show ?thesis by blast
  qed
  then obtain ov sv where sa: "sa = st\<lparr>old_volume := ov, sfxvolume := sv\<rparr>"
    by blast
  obtain fc where sb: "S_UpdateAmbientSounds k (sa\<lparr>listener_origin := origin\<rparr>)
      = sa\<lparr>listener_origin := origin, fmod_channels := fc\<rparr>"
    using S_UpdateAmbientSounds_changes [of k "sa\<lparr>listener_origin := origin\<rparr>"] by auto
  obtain sc where sc: "FMOD_System_Update (sa\<lparr>listener_origin := origin, fmod_channels := fc\<rparr>)
      = Inr sc" and st1: "st1 = sc\<lparr>sfxThisFrame := (\<lambda>i. None), numSfxThisFrame := 0\<rparr>"
    using assms by (auto simp add: S_Update_def sa_def [symmetric] Let_def sb split: sum.splits)
  from FMOD_System_Update_changes [OF sc] obtain fc' zh where
    "sc = sa\<lparr>listener_origin := origin, fmod_channels := fc\<rparr>
            \<lparr>update_calls := update_calls (sa\<lparr>listener_origin := origin, fmod_channels := fc\<rparr>) + 1,
             fmod_channels := fc', zone_heap := zh\<rparr>"
    by blast
  then have "st1 = st\<lparr>old_volume := ov, sfxvolume := sv, listener_origin := origin,
         update_calls := update_calls st + 1, fmod_channels := fc', zone_heap := zh,
         sfxThisFrame := (\<lambda>i. None), numSfxThisFrame := 0\<rparr>"
    by (simp add: st1 sa)
  then show ?thesis by blast
qed

lemma slot_upd_frame [simp]:
  "fmod_system (slot_upd p f st) = fmod_system st"
  "nosound (slot_upd p f st) = nosound st"
  "known_sfx (slot_upd p f st) = known_sfx st"
  "play_results (slot_upd p f st) = play_results st"
  "play_calls (slot_upd p f st) = play_calls st"
  "next_channel (slot_upd p f st) = next_channel st"
  "numSfxThisFrame (slot_upd p f st) = numSfxThisFrame st"
  "sfxThisFrame (slot_upd p f st) = sfxThisFrame st"
  "dspclock (slot_upd p f st) = dspclock st"
  "rand_values (slot_upd p f st) = rand_values st"
  "rand_calls (slot_upd p f st) = rand_calls st"
  "fmod_samplerate (slot_upd p f st) = fmod_samplerate st"
  "fmod_channels (slot_upd p f st) = fmod_channels st"
  by (cases p; simp add: slot_upd_Ent slot_upd_Zone)+

text \<open>
  A start on the main path: the delay of the new voice, and the state it leaves for the
  next start.
\<close>

lemma S_StartSound_next:
  assumes "fmod_system st" and "nosound st = 0"
    and "S_LoadSound st sfx = Inr st1" and "sound (known_sfx st1 sfx) = Some s"
    and "play_results st1 (play_calls st1) = FMOD_OK"
    and "0 \<le> numSfxThisFrame st1" and "numSfxThisFrame st1 \<le> 16"
    and "sfx_started st1 sfx 0 = Inr dup"
  obtains st' where "S_StartSound k st entnum entchannel (Some sfx) origin fvol a = Inr st'"
    and "map_option ch_delay (fmod_channels st' (next_channel st1)) =
           Some (if dup then Some (dspclock st1 + fst (SND_GetDelay st1 sfx (1 / 10))) else None)"
    and "map_option ch_paused (fmod_channels st' (next_channel st1)) = Some False"
    and "fmod_system st'" and "nosound st' = 0" and "known_sfx st' = known_sfx st1"
    and "play_results st' = play_results st1" and "play_calls st' = play_calls st1 + 1"
    and "next_channel st' = next_channel st1 + 1" and "dspclock st' = dspclock st1"
    and "numSfxThisFrame st' =
           (if numSfxThisFrame st1 < 16 then numSfxThisFrame st1 + 1 else numSfxThisFrame st1)"
    and "sfxThisFrame st' =
           (if numSfxThisFrame st1 < 16
            then (sfxThisFrame st1)(nat (numSfxThisFrame st1) := Some sfx)
            else sfxThisFrame st1)"
proof -
  obtain slot st2 where pick: "SND_PickSoundSlot k st1 entnum entchannel = (slot, st2)"
    by (cases "SND_PickSoundSlot k st1 entnum entchannel")
  have st2: "st2 = snd (SND_PickSoundSlot k st1 entnum entchannel)"
    by (simp add: pick)
  obtain ks ns cs where "st1 = st\<lparr>known_sfx := ks, next_sound := ns, console := cs\<rparr>"
    using S_LoadSound_changes [OF assms(3)] by blast
  then have st1: "fmod_system st1" "nosound st1 = 0"
    using assms(1,2) by simp_all
  note r = S_StartSound_result [OF assms(1-5) pick assms(6-8),
      where origin = origin and fvol = fvol and a = a]
  show ?thesis
    by (rule that [OF r]) (simp_all add: st2 st1)
qed




lemma snd_ready_first_start:
  "S_StartSound quake_constants snd_ready 5 1 (Some 2) (0, 0, 0) 1 1 = Inr (snd_playing (1 / 1000))"
  using StartSound_reaches_snd_playing [of "1 / 1000"] by simp





section \<open>The record stays within its 16 entries\<close>

lemma keeps_record_Inr [simp]:
  "keeps_record (Inr st) = record_in_bounds st"
  by (simp add: keeps_record_def)

lemma record_in_bounds_same:
  "numSfxThisFrame st' = numSfxThisFrame st \<Longrightarrow> record_in_bounds st' = record_in_bounds st"
  by (simp add: record_in_bounds_def)

lemma S_Startup_keeps_record:
  "record_in_bounds st \<Longrightarrow> record_in_bounds (S_Startup k env st)"
  by (simp add: S_Startup_def Let_def record_in_bounds_def Con_Printf_def)

lemma S_StopSound_keeps_record:
  "record_in_bounds st \<Longrightarrow> record_in_bounds (S_StopSound k st entnum entchannel)"
  by (simp add: S_StopSound_def Let_def record_in_bounds_def slot_upd_Ent chan_upd_eq
      fmod_channel_defs split: option.splits)

lemma S_StartSound_keeps_record:
  assumes "record_in_bounds st"
  shows "keeps_record (S_StartSound k st entnum entchannel sfxp origin fvol a)"
proof (cases sfxp)
  case None
  then show ?thesis
    using assms by (simp add: S_StartSound_def)
next
  case (Some sfx)
  show ?thesis
  proof (cases "fmod_system st \<and> nosound st = 0")
    case False
    then show ?thesis
      using assms Some by (auto simp add: S_StartSound_def)
  next
    case True
    note on = this
    show ?thesis
    proof (cases "S_LoadSound st sfx")
      case (Inl e)
      then have "e \<noteq> OutOfBounds"
        using S_LoadSound_no_bounds_fault [where st = st and s = sfx] by auto
      then show ?thesis
        using on Some Inl by (simp add: S_StartSound_def keeps_record_def)
    next
      case (Inr st1)
      obtain ks ns cs where "st1 = st\<lparr>known_sfx := ks, next_sound := ns, console := cs\<rparr>"
        using S_LoadSound_changes [OF Inr] by blast
      then have b1: "record_in_bounds st1"
        using assms by (simp add: record_in_bounds_def)
      show ?thesis
      proof (cases "sound (known_sfx st1 sfx)")
        case None
        then show ?thesis
          using on Some Inr b1 by (simp add: S_StartSound_def)
      next
        case (Some s)
        note resident = this
        show ?thesis
        proof (cases "play_results st1 (play_calls st1) = FMOD_OK")
          case True
          obtain dup where dup: "sfx_started st1 sfx 0 = Inr dup"
            using b1 by (auto simp add: record_in_bounds_def intro: sfx_started_total [of st1 sfx])
          obtain st' where
            "S_StartSound k st entnum entchannel (Some sfx) origin fvol a = Inr st'"
            "numSfxThisFrame st' =
               (if numSfxThisFrame st1 < 16 then numSfxThisFrame st1 + 1 else numSfxThisFrame st1)"
            using S_StartSound_next [OF _ _ Inr resident True _ _ dup,
                where k = k and entnum = entnum and entchannel = entchannel and origin = origin
                  and fvol = fvol and a = a] on b1
            by (metis (no_types, lifting) record_in_bounds_def)
          then show ?thesis
            using b1 \<open>sfxp = Some sfx\<close> by (simp add: record_in_bounds_def)
        next
          case False
          have "play_results (snd (SND_PickSoundSlot k st1 entnum entchannel))
                  (play_calls (snd (SND_PickSoundSlot k st1 entnum entchannel))) \<noteq> FMOD_OK"
            using False by simp
          then have "S_StartSound k st entnum entchannel (Some sfx) origin fvol a =
              Inr (Con_Printf ''Failed to play FMOD sound: %s''
                    ((snd (SND_PickSoundSlot k st1 entnum entchannel))
                       \<lparr>play_calls := play_calls st1 + 1\<rparr>))"
            using on Inr resident
            by (simp add: S_StartSound_def PlaySound_failed case_prod_beta)
          then show ?thesis
            using b1 \<open>sfxp = Some sfx\<close>
            by (simp add: record_in_bounds_def Con_Printf_def)
        qed
      qed
    qed
  qed
qed

lemma S_StaticSound_keeps_record:
  assumes "record_in_bounds st"
  shows "keeps_record (S_StaticSound k st sfxp origin vol a)"
proof (cases sfxp)
  case None
  then show ?thesis
    using assms by (simp add: S_StaticSound_def)
next
  case (Some sfx)
  show ?thesis
  proof (cases "fmod_system st")
    case False
    then show ?thesis
      using assms Some by (simp add: S_StaticSound_def)
  next
    case True
    note on = this
    show ?thesis
    proof (cases "S_LoadSound st sfx")
      case (Inl e)
      then have "e \<noteq> OutOfBounds"
        using S_LoadSound_no_bounds_fault [where st = st and s = sfx] by auto
      then show ?thesis
        using on Some Inl by (simp add: S_StaticSound_def keeps_record_def)
    next
      case (Inr st1)
      obtain ks ns cs where "st1 = st\<lparr>known_sfx := ks, next_sound := ns, console := cs\<rparr>"
        using S_LoadSound_changes [OF Inr] by blast
      then have b1: "record_in_bounds st1"
        using assms by (simp add: record_in_bounds_def)
      show ?thesis
      proof (cases "sound (known_sfx st1 sfx)")
        case None
        then show ?thesis
          using on Some Inr b1 by (simp add: S_StaticSound_def)
      next
        case (Some s)
        note resident = this
        show ?thesis
        proof (cases "0 \<le> loopstart (known_sfx st1 sfx)
                      \<and> play_results st1 (play_calls st1) = FMOD_OK")
          case True
          then show ?thesis
            using S_StaticSound_result [OF on Inr resident, where k = k and origin = origin
                and vol = vol and a = a] b1 \<open>sfxp = Some sfx\<close>
            by (simp add: record_in_bounds_def)
        next
          case False
          then have "S_StaticSound k st (Some sfx) origin vol a =
                Inr (Con_Printf ''Sound %s not looped'' st1)
              \<or> S_StaticSound k st (Some sfx) origin vol a =
                Inr (Con_Printf ''Failed to play static FMOD sound: %s''
                      (st1\<lparr>play_calls := play_calls st1 + 1\<rparr>))"
            using on Inr resident by (auto simp add: S_StaticSound_def PlaySound_failed)
          then show ?thesis
            using b1 \<open>sfxp = Some sfx\<close>
            by (auto simp add: record_in_bounds_def Con_Printf_def)
        qed
      qed
    qed
  qed
qed

lemma SND_StartAmbientSound_record:
  "case SND_StartAmbientSound st samplename of
     Inl e \<Rightarrow> e \<noteq> OutOfBounds
   | Inr (h, st') \<Rightarrow> numSfxThisFrame st' = numSfxThisFrame st \<and> fmod_system st' = fmod_system st"
proof (cases "S_PrecacheSound st samplename")
  case None
  then show ?thesis
    by (simp add: SND_StartAmbientSound_def)
next
  case (Some sfx)
  show ?thesis
  proof (cases "S_LoadSound st sfx")
    case (Inl e)
    then have "e \<noteq> OutOfBounds"
      using S_LoadSound_no_bounds_fault [where st = st and s = sfx] by auto
    then show ?thesis
      using Some Inl by (simp add: SND_StartAmbientSound_def)
  next
    case (Inr st1)
    obtain ks ns cs where "st1 = st\<lparr>known_sfx := ks, next_sound := ns, console := cs\<rparr>"
      using S_LoadSound_changes [OF Inr] by blast
    then have b1: "numSfxThisFrame st1 = numSfxThisFrame st" "fmod_system st1 = fmod_system st"
      by simp_all
    show ?thesis
    proof (cases "sound (known_sfx st1 sfx)")
      case None
      then show ?thesis
        using Some Inr b1 by (simp add: SND_StartAmbientSound_def)
    next
      case (Some s)
      then show ?thesis
        using \<open>S_PrecacheSound st samplename = Some sfx\<close> Inr b1
        by (cases "play_results st1 (play_calls st1) = FMOD_OK")
           (simp_all add: SND_StartAmbientSound_def PlaySound_ok PlaySound_failed
              SetChannelAttributes_eq chan_upd_eq fmod_channel_defs Con_Printf_def)
    qed
  qed
qed

lemma SND_StartAmbientSounds_record:
  "case SND_StartAmbientSounds k st of
     Inl e \<Rightarrow> e \<noteq> OutOfBounds
   | Inr st' \<Rightarrow> numSfxThisFrame st' = numSfxThisFrame st \<and> fmod_system st' = fmod_system st"
proof -
  define s0 where "s0 = st\<lparr>ambients := (\<lambda>i. None)\<rparr>"
  show ?thesis
  proof (cases "SND_StartAmbientSound s0 ''ambience/water1.wav''")
    case (Inl e)
    then show ?thesis
      using SND_StartAmbientSound_record [where st = s0 and samplename = "''ambience/water1.wav''"]
      by (simp add: SND_StartAmbientSounds_def s0_def [symmetric])
  next
    case (Inr r)
    obtain water st1 where r: "r = (water, st1)"
      by (cases r)
    have b1: "numSfxThisFrame st1 = numSfxThisFrame st" "fmod_system st1 = fmod_system st"
      using SND_StartAmbientSound_record [where st = s0 and samplename = "''ambience/water1.wav''"] Inr r
      by (simp_all add: s0_def)
    define s1 where "s1 = st1\<lparr>ambients := (ambients st1)(AMBIENT_WATER k := water)\<rparr>"
    have b2: "numSfxThisFrame s1 = numSfxThisFrame st" "fmod_system s1 = fmod_system st"
      by (simp_all add: s1_def b1)
    show ?thesis
      using SND_StartAmbientSound_record [where st = s1 and samplename = "''ambience/wind2.wav''"] Inr r b2
      by (auto simp add: SND_StartAmbientSounds_def s0_def [symmetric] Let_def
          s1_def [symmetric] split: sum.splits)
  qed
qed

lemma S_StopAllSounds_keeps_record:
  assumes "record_in_bounds st"
  shows "keeps_record (S_StopAllSounds k st clear)"
    and "S_StopAllSounds k st clear = Inr st' \<Longrightarrow> numSfxThisFrame st' = numSfxThisFrame st"
proof -
  have "keeps_record (S_StopAllSounds k st clear)
      \<and> (\<forall>st'. S_StopAllSounds k st clear = Inr st' \<longrightarrow> numSfxThisFrame st' = numSfxThisFrame st)"
  proof (cases "fmod_system st")
    case False
    then show ?thesis
      using assms by (simp add: S_StopAllSounds_def)
  next
    case True
    show ?thesis
    proof (cases "FMOD_ChannelGroup_Stop st")
      case (Inl e)
      then have "e \<noteq> OutOfBounds"
        using end_channels_no_bounds_fault [where hs = "[0..<next_channel st]" and st = st]
        by (auto simp add: FMOD_ChannelGroup_Stop_def split: if_splits)
      then show ?thesis
        using True Inl by (simp add: S_StopAllSounds_def keeps_record_def)
    next
      case (Inr st1)
      have "\<exists>fc zh. st1 = st\<lparr>fmod_channels := fc, zone_heap := zh\<rparr>"
      proof (cases "sfx_channelGroup st")
        case True
        then show ?thesis
          using Inr end_channels_changes by (simp add: FMOD_ChannelGroup_Stop_def)
      next
        case False
        then have "st1 = st\<lparr>fmod_channels := fmod_channels st, zone_heap := zone_heap st\<rparr>"
          using Inr by (simp add: FMOD_ChannelGroup_Stop_def)
        then show ?thesis by blast
      qed
      then have n1: "numSfxThisFrame st1 = numSfxThisFrame st"
        by auto
      show ?thesis
        using True Inr n1 assms SND_StartAmbientSounds_record [where k = k and st = st1]
        by (auto simp add: S_StopAllSounds_def S_ClearBuffer_def keeps_record_def
            record_in_bounds_def split: sum.splits)
    qed
  qed
  then show "keeps_record (S_StopAllSounds k st clear)"
    and "S_StopAllSounds k st clear = Inr st' \<Longrightarrow> numSfxThisFrame st' = numSfxThisFrame st"
    by simp_all
qed

lemma S_Shutdown_keeps_record:
  assumes "record_in_bounds st"
  shows "keeps_record (S_Shutdown k st)"
proof (cases "S_StopAllSounds k st False")
  case (Inl e)
  then show ?thesis
    using S_StopAllSounds_keeps_record(1) [OF assms, where k = k and clear = False]
    by (simp add: S_Shutdown_def Con_DPrintf_def keeps_record_def)
next
  case (Inr st1)
  then show ?thesis
    using S_StopAllSounds_keeps_record(2) [OF assms Inr] assms
    by (simp add: S_Shutdown_def Con_DPrintf_def record_in_bounds_def)
qed

lemma S_Update_keeps_record:
  assumes "record_in_bounds st"
  shows "keeps_record (S_Update k st origin forward right up)"
proof (cases "fmod_system st")
  case False
  then show ?thesis
    using assms by (simp add: S_Update_def)
next
  case True
  show ?thesis
  proof (cases "S_Update k st origin forward right up")
    case (Inl e)
    have "e \<noteq> OutOfBounds"
      using Inl True end_channels_no_bounds_fault
      by (auto simp add: S_Update_def Let_def FMOD_System_Update_def split: sum.splits)
    then show ?thesis
      by (simp add: Inl keeps_record_def)
  next
    case (Inr st1)
    then show ?thesis
      using S_Update_changes [OF True Inr] by (auto simp add: record_in_bounds_def)
  qed
qed

lemma S_ExtraUpdate_keeps_record:
  assumes "record_in_bounds st"
  shows "keeps_record (S_ExtraUpdate st)"
proof (cases "FMOD_System_Update st")
  case (Inl e)
  then have "e \<noteq> OutOfBounds"
    using end_channels_no_bounds_fault by (auto simp add: FMOD_System_Update_def)
  then show ?thesis
    using Inl assms by (simp add: S_ExtraUpdate_def keeps_record_def)
next
  case (Inr st1)
  then show ?thesis
    using FMOD_System_Update_changes [OF Inr] assms
    by (auto simp add: S_ExtraUpdate_def record_in_bounds_def)
qed

lemma do_call_keeps_record:
  "record_in_bounds st \<Longrightarrow> keeps_record (do_call k c st)"
  by (cases c)
     (simp_all add: S_Startup_keeps_record S_Shutdown_keeps_record S_StartSound_keeps_record
        S_StaticSound_keeps_record S_StopSound_keeps_record S_StopAllSounds_keeps_record(1)
        S_Update_keeps_record S_ExtraUpdate_keeps_record)

lemma run_keeps_record:
  "record_in_bounds st \<Longrightarrow> keeps_record (run k cs st)"
proof (induction cs arbitrary: st)
  case Nil
  then show ?case by simp
next
  case (Cons c cs)
  show ?case
  proof (cases "do_call k c st")
    case (Inl e)
    then show ?thesis
      using do_call_keeps_record [OF Cons.prems, where k = k and c = c] by (simp add: keeps_record_def)
  next
    case (Inr st1)
    then have "record_in_bounds st1"
      using do_call_keeps_record [OF Cons.prems, where k = k and c = c] by simp
    then show ?thesis
      using Cons.IH Inr by simp
  qed
qed

text \<open>
  C10. The count of recorded sounds starts at 0 and stays between 0 and 16 through every
  run of the interface, and no call reads or writes \<open>sfxThisFrame\<close> outside its 16
  entries. When 16 sounds are recorded, a started sound is not recorded: the count and
  the entries stay as they are, and a second start of that sound in the same frame,
  when no recorded entry is that sound, finds no duplicate and sets no start delay.
\<close>

theorem C10_record_bounded:
  assumes "record_in_bounds st"
  shows "record_in_bounds snd_boot
    \<and> keeps_record (run k calls st)
    \<and> (fmod_system st \<and> nosound st = 0 \<and> S_LoadSound st sfx = Inr st1
         \<and> sound (known_sfx st1 sfx) = Some s
         \<and> play_results st1 (play_calls st1) = FMOD_OK
         \<and> play_results st1 (play_calls st1 + 1) = FMOD_OK
         \<and> numSfxThisFrame st1 = 16 \<and> sfx_started st1 sfx 0 = Inr False \<longrightarrow>
        (case S_StartSound k st e1 c1 (Some sfx) origin fvol a of
           Inl e \<Rightarrow> False
         | Inr sta \<Rightarrow>
             numSfxThisFrame sta = 16 \<and> sfxThisFrame sta = sfxThisFrame st1
             \<and> (case S_StartSound k sta e2 c2 (Some sfx) origin fvol a of
                  Inl e \<Rightarrow> False
                | Inr stb \<Rightarrow>
                    map_option ch_delay (fmod_channels stb (next_channel st1 + 1)) = Some None)))"
proof (intro conjI impI)
  show "record_in_bounds snd_boot"
    by (simp add: record_in_bounds_def)
  show "keeps_record (run k calls st)"
    using assms by (rule run_keeps_record)
  assume h: "fmod_system st \<and> nosound st = 0 \<and> S_LoadSound st sfx = Inr st1
         \<and> sound (known_sfx st1 sfx) = Some s
         \<and> play_results st1 (play_calls st1) = FMOD_OK
         \<and> play_results st1 (play_calls st1 + 1) = FMOD_OK
         \<and> numSfxThisFrame st1 = 16 \<and> sfx_started st1 sfx 0 = Inr False"
  then have h': "fmod_system st" "nosound st = 0" "S_LoadSound st sfx = Inr st1"
    "sound (known_sfx st1 sfx) = Some s" "play_results st1 (play_calls st1) = FMOD_OK"
    "play_results st1 (play_calls st1 + 1) = FMOD_OK" "numSfxThisFrame st1 = 16"
    "sfx_started st1 sfx 0 = Inr False"
    by simp_all
  have n: "0 \<le> numSfxThisFrame st1" "numSfxThisFrame st1 \<le> 16"
    using h'(7) by simp_all
  obtain sta where a: "S_StartSound k st e1 c1 (Some sfx) origin fvol a = Inr sta"
    and a_st: "fmod_system sta" "nosound sta = 0" "known_sfx sta = known_sfx st1"
      "play_results sta = play_results st1" "play_calls sta = play_calls st1 + 1"
      "next_channel sta = next_channel st1 + 1"
    and a_rec: "numSfxThisFrame sta = numSfxThisFrame st1" "sfxThisFrame sta = sfxThisFrame st1"
    using S_StartSound_next [OF h'(1-5) n h'(8),
        where k = k and entnum = e1 and entchannel = c1 and origin = origin and fvol = fvol
          and a = a] h'(7)
    by (metis (no_types, lifting) less_irrefl)
  have res: "sound (known_sfx sta sfx) = Some s"
    "play_results sta (play_calls sta) = FMOD_OK"
    "0 \<le> numSfxThisFrame sta" "numSfxThisFrame sta \<le> 16"
    using a_st a_rec h'(4,6,7) by simp_all
  have scan: "sfx_started sta sfx 0 = Inr False"
    using sfx_started_cong [OF a_rec, of 0 sfx] n h'(8) by simp
  obtain stb where "S_StartSound k sta e2 c2 (Some sfx) origin fvol a = Inr stb"
    "map_option ch_delay (fmod_channels stb (next_channel sta)) = Some None"
    using S_StartSound_next [OF a_st(1,2) S_LoadSound_resident res scan,
        where k = k and entnum = e2 and entchannel = c2 and origin = origin and fvol = fvol
          and a = a] res(1)
    by (metis (no_types, lifting) option.distinct(1))
  then show "case S_StartSound k st e1 c1 (Some sfx) origin fvol a of
           Inl e \<Rightarrow> False
         | Inr sta \<Rightarrow>
             numSfxThisFrame sta = 16 \<and> sfxThisFrame sta = sfxThisFrame st1
             \<and> (case S_StartSound k sta e2 c2 (Some sfx) origin fvol a of
                  Inl e \<Rightarrow> False
                | Inr stb \<Rightarrow>
                    map_option ch_delay (fmod_channels stb (next_channel st1 + 1)) = Some None)"
    by (simp add: a a_rec a_st(6) h'(7))
qed

lemma snd_full_fields [simp]:
  "fmod_system snd_full" "nosound snd_full = 0" "numSfxThisFrame snd_full = 16"
  "sfxThisFrame snd_full = (\<lambda>i. if i < 16 then Some 0 else None)"
  "known_sfx snd_full = known_sfx snd_ready"
  "play_results snd_full = (\<lambda>n. FMOD_OK)" "play_calls snd_full = 0"
  "next_channel snd_full = 0"
  by (simp_all add: snd_full_def)

lemma snd_full_scan:
  "sfx_started snd_full 2 0 = Inr False"
  using sfx_started_eq [of 0 snd_full 2] by simp

theorem C10_record_bounded_witness:
  "keeps_record
     (run quake_constants
        [StartSound 5 1 (Some 2) (0, 0, 0) 1 1, StartSound 6 1 (Some 2) (0, 0, 0) 1 1,
         Update (0, 0, 0) (1, 0, 0) (0, 1, 0) (0, 0, 1)] snd_full)
   \<and> (case S_StartSound quake_constants snd_full 5 1 (Some 2) (0, 0, 0) 1 1 of
         Inl e \<Rightarrow> False
       | Inr sta \<Rightarrow>
           numSfxThisFrame sta = 16
           \<and> (case S_StartSound quake_constants sta 6 1 (Some 2) (0, 0, 0) 1 1 of
                Inl e \<Rightarrow> False
              | Inr stb \<Rightarrow> map_option ch_delay (fmod_channels stb 1) = Some None))"
  using C10_record_bounded [where st = snd_full and ?st1.0 = snd_full and sfx = 2 and s = 2
      and k = quake_constants and ?e1.0 = 5 and ?c1.0 = 1 and ?e2.0 = 6 and ?c2.0 = 1
      and origin = "(0, 0, 0)" and fvol = 1 and a = 1
      and calls = "[StartSound 5 1 (Some 2) (0, 0, 0) 1 1, StartSound 6 1 (Some 2) (0, 0, 0) 1 1,
         Update (0, 0, 0) (1, 0, 0) (0, 1, 0) (0, 0, 1)]"]
  by (auto simp add: record_in_bounds_def S_LoadSound_resident snd_full_scan
      simp del: run.simps split: sum.splits)

section \<open>A failed start of the subsystem\<close>

text \<open>
  Every playback function returns at once while \<open>fmod_system\<close> is \<open>NULL\<close>, which is
  the case after a start in which the engine could not be created.
\<close>

lemma no_system_no_effect:
  assumes "\<not> fmod_system st"
  shows "S_StartSound k st entnum entchannel sfx origin fvol a = Inr st"
    and "S_StaticSound k st sfx origin vol a = Inr st"
    and "S_StopSound k st entnum entchannel = st"
    and "S_StopAllSounds k st clear = Inr st"
    and "S_Update k st origin forward right up = Inr st"
    and "S_ExtraUpdate st = Inr st"
  using assms
  by (simp_all add: S_StartSound_def S_StaticSound_def S_StopSound_def S_StopAllSounds_def
      S_Update_def S_ExtraUpdate_def split: option.splits)

lemma startup_create_failed:
  "System_Create env \<noteq> FMOD_OK \<Longrightarrow> fmod_system (S_Startup k env st) = fmod_system st"
  by (simp add: S_Startup_def Con_Printf_def)

lemma snd_init_failed_eq:
  "snd_init_failed =
     snd_boot\<lparr>fmod_system := True, console := [''Failed to initialize FMOD System: %s'']\<rparr>"
  by (simp add: snd_init_failed_def S_Startup_def fmod_all_ok_def quake_constants_def
      Con_Printf_def Let_def)

text \<open>
  C8 does not hold of the code. When the engine is created and a later step of the start
  fails, \<open>S_Startup\<close> returns with \<open>fmod_system\<close> set and \<open>sound_started\<close> unset, and the
  playback functions, which test \<open>fmod_system\<close> only, go on: \<open>S_Update\<close> stores the
  listener's origin and the volume and runs an engine update.
\<close>

theorem C8_update_after_failed_init:
  "\<not> sound_started snd_init_failed \<and> fmod_system snd_init_failed
   \<and> listener_origin snd_init_failed = (0, 0, 0) \<and> old_volume snd_init_failed = - 1
   \<and> update_calls snd_init_failed = 0
   \<and> (case S_Update quake_constants snd_init_failed (1, 2, 3) (1, 0, 0) (0, 1, 0) (0, 0, 1) of
         Inl e \<Rightarrow> False
       | Inr st \<Rightarrow>
           listener_origin st = (1, 2, 3) \<and> old_volume st = 7 / 10 \<and> update_calls st = 1)"
proof -
  have amb: "S_UpdateAmbientSounds quake_constants (snd_boot\<lparr>fmod_system := b, console := c,
      old_volume := v, listener_origin := p\<rparr>)
      = snd_boot\<lparr>fmod_system := b, console := c, old_volume := v, listener_origin := p\<rparr>"
    for b c v p
    by (simp add: S_UpdateAmbientSounds_def quake_constants_def S_UpdateAmbientSounds_body_def
        upt_rec)
  show ?thesis
    by (simp add: snd_init_failed_eq S_Update_def Let_def amb FMOD_System_Update_def)
qed

section \<open>Who writes the distance multiplier\<close>

lemma dist_mult_kept_refl:
  "dist_mult_kept st st"
  by (simp add: dist_mult_kept_def)

lemma dist_mult_kept_trans:
  "dist_mult_kept st st1 \<Longrightarrow> dist_mult_kept st1 st2 \<Longrightarrow> dist_mult_kept st st2"
  by (simp add: dist_mult_kept_def)

lemma dist_mult_kept_same:
  "entsounds st' = entsounds st \<Longrightarrow> zone_heap st' = zone_heap st \<Longrightarrow> dist_mult_kept st st'"
  by (simp add: dist_mult_kept_def)

lemma dist_mult_kept_slot:
  assumes "dist_mult_kept st st'" and "slot_get st' p = Some x"
  shows "map_option dist_mult (slot_get st p) = Some (dist_mult x)"
proof (cases p)
  case (EntSlot e c)
  then show ?thesis
    using assms by (auto simp add: dist_mult_kept_def slot_get_def)
next
  case (ZoneSlot a)
  then show ?thesis
    using assms by (auto simp add: dist_mult_kept_def slot_get_def)
qed

lemma S_StopSound_dist_mult:
  "dist_mult_kept st (S_StopSound k st entnum entchannel)"
  by (simp add: S_StopSound_def Let_def dist_mult_kept_def slot_upd_Ent chan_upd_eq
      fmod_channel_defs split: option.splits)

lemma SND_FMOD_Callback_dist_mult:
  assumes "SND_FMOD_Callback st h b = Inr st1"
  shows "dist_mult_kept st st1"
proof -
  have "st1 = st \<or> (\<exists>a. st1 = st\<lparr>zone_heap := (zone_heap st)(a := None)\<rparr>)"
    using assms
    by (auto simp add: SND_FMOD_Callback_def Z_Free_def
        split: if_splits option.splits slot_ptr.splits)
  then show ?thesis
    by (auto simp add: dist_mult_kept_def split: if_splits)
qed

lemma end_channels_dist_mult:
  "end_channels hs st = Inr st1 \<Longrightarrow> dist_mult_kept st st1"
proof (induction hs arbitrary: st)
  case Nil
  then show ?case
    by (simp add: dist_mult_kept_refl)
next
  case (Cons h hs)
  show ?case
  proof (cases "fmod_channels st h")
    case None
    then show ?thesis
      using Cons by simp
  next
    case (Some c)
    obtain st2 where cb: "(if ch_callback c then SND_FMOD_Callback st h True else Inr st) = Inr st2"
      and rest: "end_channels hs (st2\<lparr>fmod_channels := (fmod_channels st2)(h := None)\<rparr>) = Inr st1"
      using Cons.prems Some by (auto split: sum.splits)
    have "dist_mult_kept st st2"
      using cb SND_FMOD_Callback_dist_mult [of st h True st2]
      by (cases "ch_callback c") (simp_all add: dist_mult_kept_refl)
    then have "dist_mult_kept st (st2\<lparr>fmod_channels := (fmod_channels st2)(h := None)\<rparr>)"
      by (simp add: dist_mult_kept_def)
    then show ?thesis
      using Cons.IH [OF rest] dist_mult_kept_trans by blast
  qed
qed

lemma SND_StartAmbientSound_slots:
  "SND_StartAmbientSound st samplename = Inr (h, st') \<Longrightarrow>
   entsounds st' = entsounds st \<and> zone_heap st' = zone_heap st"
proof (cases "S_PrecacheSound st samplename")
  case None
  assume "SND_StartAmbientSound st samplename = Inr (h, st')"
  with None show ?thesis
    by (simp add: SND_StartAmbientSound_def)
next
  case (Some sfx)
  assume r: "SND_StartAmbientSound st samplename = Inr (h, st')"
  show ?thesis
  proof (cases "S_LoadSound st sfx")
    case (Inl e)
    then show ?thesis
      using Some r by (simp add: SND_StartAmbientSound_def)
  next
    case (Inr st1)
    obtain ks ns cs where "st1 = st\<lparr>known_sfx := ks, next_sound := ns, console := cs\<rparr>"
      using S_LoadSound_changes [OF Inr] by blast
    then have b1: "entsounds st1 = entsounds st" "zone_heap st1 = zone_heap st"
      by simp_all
    show ?thesis
    proof (cases "sound (known_sfx st1 sfx)")
      case None
      then show ?thesis
        using Some Inr b1 r by (auto simp add: SND_StartAmbientSound_def)
    next
      case (Some s)
      then show ?thesis
        using \<open>S_PrecacheSound st samplename = Some sfx\<close> Inr b1 r
        by (cases "play_results st1 (play_calls st1) = FMOD_OK")
           (auto simp add: SND_StartAmbientSound_def PlaySound_ok PlaySound_failed
              SetChannelAttributes_eq chan_upd_eq fmod_channel_defs Con_Printf_def)
    qed
  qed
qed

lemma SND_StartAmbientSounds_dist_mult:
  assumes "SND_StartAmbientSounds k st = Inr st'"
  shows "dist_mult_kept st st'"
proof -
  define s0 where "s0 = st\<lparr>ambients := (\<lambda>i. None)\<rparr>"
  obtain water st1 where w: "SND_StartAmbientSound s0 ''ambience/water1.wav'' = Inr (water, st1)"
    using assms
    by (auto simp add: SND_StartAmbientSounds_def s0_def [symmetric] Let_def split: sum.splits)
  define s1 where "s1 = st1\<lparr>ambients := (ambients st1)(AMBIENT_WATER k := water)\<rparr>"
  obtain sky st2 where s: "SND_StartAmbientSound s1 ''ambience/wind2.wav'' = Inr (sky, st2)"
    and st': "st' = st2\<lparr>ambients := (ambients st2)(AMBIENT_SKY k := sky)\<rparr>"
    using assms w
    by (auto simp add: SND_StartAmbientSounds_def s0_def [symmetric] Let_def
        s1_def [symmetric] split: sum.splits)
  have "entsounds st1 = entsounds st" "zone_heap st1 = zone_heap st"
    using SND_StartAmbientSound_slots [OF w] by (simp_all add: s0_def)
  moreover have "entsounds st2 = entsounds st1" "zone_heap st2 = zone_heap st1"
    using SND_StartAmbientSound_slots [OF s] by (simp_all add: s1_def)
  ultimately show ?thesis
    by (simp add: st' dist_mult_kept_def)
qed

lemma FMOD_System_Update_dist_mult:
  assumes "FMOD_System_Update st = Inr st1"
  shows "dist_mult_kept st st1"
  using end_channels_dist_mult [OF assms [unfolded FMOD_System_Update_def]]
  by (simp add: dist_mult_kept_def)

lemma S_StopAllSounds_dist_mult:
  assumes "S_StopAllSounds k st clear = Inr st'"
  shows "dist_mult_kept st st'"
proof (cases "fmod_system st")
  case False
  then show ?thesis
    using assms by (simp add: S_StopAllSounds_def dist_mult_kept_refl)
next
  case True
  obtain st1 where stop: "FMOD_ChannelGroup_Stop st = Inr st1"
    and rest: "(if clear then SND_StartAmbientSounds k (S_ClearBuffer st1) else Inr st1) = Inr st'"
    using assms True by (auto simp add: S_StopAllSounds_def split: sum.splits)
  have a: "dist_mult_kept st st1"
    using stop end_channels_dist_mult [of "[0..<next_channel st]" st st1]
    by (auto simp add: FMOD_ChannelGroup_Stop_def dist_mult_kept_refl split: if_splits)
  have "dist_mult_kept st1 st'"
    using rest SND_StartAmbientSounds_dist_mult [of k st1 st']
    by (cases clear) (simp_all add: S_ClearBuffer_def dist_mult_kept_refl)
  with a show ?thesis
    by (rule dist_mult_kept_trans)
qed

lemma S_Shutdown_dist_mult:
  assumes "S_Shutdown k st = Inr st'"
  shows "dist_mult_kept st st'"
proof -
  obtain st1 where "S_StopAllSounds k st False = Inr st1"
    and "st' = st1\<lparr>known_sfx := (\<lambda>i. if i < num_sfx st1 then (known_sfx st1 i)\<lparr>sound := None\<rparr>
                                     else known_sfx st1 i),
                   sfx_channelGroup := False, fmod_system := False\<rparr>"
    using assms by (auto simp add: S_Shutdown_def Con_DPrintf_def split: sum.splits)
  then show ?thesis
    using S_StopAllSounds_dist_mult [of k st False st1] by (simp add: dist_mult_kept_def)
qed

lemma S_Update_dist_mult:
  assumes "S_Update k st origin forward right up = Inr st'"
  shows "dist_mult_kept st st'"
proof (cases "fmod_system st")
  case False
  then show ?thesis
    using assms by (simp add: S_Update_def dist_mult_kept_refl)
next
  case True
  define sa where "sa =
     (if old_volume st \<noteq> sfxvolume st
      then (let st = (if sfxvolume st < 0 then st\<lparr>sfxvolume := 0\<rparr>
                      else if sfxvolume st > 1 then st\<lparr>sfxvolume := 1\<rparr>
                      else st)
            in st\<lparr>old_volume := sfxvolume st\<rparr>)
      else st)"
  have sa: "entsounds sa = entsounds st" "zone_heap sa = zone_heap st"
    by (simp_all add: sa_def Let_def)
  obtain fc where sb: "S_UpdateAmbientSounds k (sa\<lparr>listener_origin := origin\<rparr>)
      = sa\<lparr>listener_origin := origin, fmod_channels := fc\<rparr>"
    using S_UpdateAmbientSounds_changes [of k "sa\<lparr>listener_origin := origin\<rparr>"] by auto
  obtain sc where sc: "FMOD_System_Update (sa\<lparr>listener_origin := origin, fmod_channels := fc\<rparr>)
      = Inr sc" and st': "st' = sc\<lparr>sfxThisFrame := (\<lambda>i. None), numSfxThisFrame := 0\<rparr>"
    using assms True
    by (auto simp add: S_Update_def sa_def [symmetric] Let_def sb split: sum.splits)
  have "dist_mult_kept (sa\<lparr>listener_origin := origin, fmod_channels := fc\<rparr>) sc"
    by (rule FMOD_System_Update_dist_mult [OF sc])
  then show ?thesis
    by (simp add: st' dist_mult_kept_def sa)
qed

lemma S_ExtraUpdate_dist_mult:
  assumes "S_ExtraUpdate st = Inr st'"
  shows "dist_mult_kept st st'"
  using assms FMOD_System_Update_dist_mult [of st st']
  by (cases "fmod_system st") (simp_all add: S_ExtraUpdate_def dist_mult_kept_refl)

lemma do_call_dist_mult:
  assumes "\<not> writes_dist_mult c" and "do_call k c st = Inr st'"
  shows "dist_mult_kept st st'"
  using assms S_StopSound_dist_mult [of st k]
  by (cases c)
     (auto simp add: S_Shutdown_dist_mult S_StopAllSounds_dist_mult S_Update_dist_mult
        S_ExtraUpdate_dist_mult)

text \<open>A start leaves every slot but the one it picked as it was.\<close>

lemma slot_get_upd_other:
  "p \<noteq> q \<Longrightarrow> slot_get (slot_upd q f st) p = slot_get st p"
  by (cases p; cases q) (auto simp add: slot_get_def slot_upd_Ent slot_upd_Zone)

lemma PickSoundSlot_other:
  assumes "p \<noteq> fst (SND_PickSoundSlot k st e c)"
  shows "slot_get (snd (SND_PickSoundSlot k st e c)) p = slot_get st p"
proof (cases "e < 0 \<or> e \<ge> MAX_CHANNELS k \<or> c = 0 \<or> c > 7")
  case True
  then show ?thesis
    using assms by (cases p) (auto simp add: PickSoundSlot_anonymous slot_get_def)
next
  case False
  then have t: "0 \<le> e" "e < MAX_CHANNELS k" "c \<noteq> 0" "c \<le> 7"
    by simp_all
  show ?thesis
    using assms
    by (cases p; cases "channel (entsounds st e (if c < 0 then 0 else c))")
       (auto simp add: PickSoundSlot_tracked [OF t] slot_get_def)
qed

lemma S_LoadSound_slots:
  assumes "S_LoadSound st s = Inr st1"
  shows "slot_get st1 = slot_get st"
proof -
  obtain ks ns cs where "st1 = st\<lparr>known_sfx := ks, next_sound := ns, console := cs\<rparr>"
    using S_LoadSound_changes [OF assms] by blast
  then show ?thesis
    by (intro ext) (simp add: slot_get_def split: slot_ptr.splits)
qed

lemma S_StartSound_other_slots:
  assumes "fmod_system st" and "nosound st = 0"
    and "S_LoadSound st sfx = Inr st1" and "sound (known_sfx st1 sfx) = Some s"
    and "play_results st1 (play_calls st1) = FMOD_OK"
    and "0 \<le> numSfxThisFrame st1" and "numSfxThisFrame st1 \<le> 16"
    and "p \<noteq> fst (SND_PickSoundSlot k st1 entnum entchannel)"
  shows "case S_StartSound k st entnum entchannel (Some sfx) origin fvol a of
           Inl e \<Rightarrow> False
         | Inr st' \<Rightarrow> slot_get st' p = slot_get st p"
proof -
  obtain slot st2 where pick: "SND_PickSoundSlot k st1 entnum entchannel = (slot, st2)"
    by (cases "SND_PickSoundSlot k st1 entnum entchannel")
  obtain dup where dup: "sfx_started st1 sfx 0 = Inr dup"
    using assms(6,7) by (rule sfx_started_total)
  have ne: "p \<noteq> slot"
    using assms(8) by (simp add: pick)
  have "slot_get st2 p = slot_get st1 p"
    using PickSoundSlot_other [OF assms(8)] by (simp add: pick)
  then show ?thesis
    unfolding S_StartSound_result [OF assms(1-5) pick assms(6,7) dup]
    by (simp add: slot_get_upd_other [OF ne] S_LoadSound_slots [OF assms(3)])
qed

lemma S_StaticSound_other_slots:
  assumes "fmod_system st"
    and "S_LoadSound st sfx = Inr st1" and "sound (known_sfx st1 sfx) = Some s"
    and "0 \<le> loopstart (known_sfx st1 sfx)"
    and "play_results st1 (play_calls st1) = FMOD_OK"
    and "p \<noteq> ZoneSlot (zone_next st1)"
  shows "case S_StaticSound k st (Some sfx) origin vol a of
           Inl e \<Rightarrow> False
         | Inr st' \<Rightarrow> slot_get st' p = slot_get st p"
proof -
  obtain ks ns cs where "st1 = st\<lparr>known_sfx := ks, next_sound := ns, console := cs\<rparr>"
    using S_LoadSound_changes [OF assms(2)] by blast
  then have "entsounds st1 = entsounds st" "zone_heap st1 = zone_heap st"
    by simp_all
  then show ?thesis
    unfolding S_StaticSound_result [OF assms(1-5)]
    using assms(6) by (cases p) (auto simp add: slot_get_def)
qed

text \<open>
  C3, as amended. A successful start writes the distance multiplier of the slot it
  picked, and leaves every other slot as it was: \<open>S_StartSound\<close> writes the attenuation
  divided by \<open>sound_nominal_clip_dist\<close>, which is 1000; \<open>S_StaticSound\<close>, whose
  attenuation is in the range 0 to 255, writes the attenuation divided by 64 and then by
  \<open>sound_nominal_clip_dist\<close>. The slot is the user data of the new voice. A slot of the
  grid is written again by every later start on it. No other call of the interface,
  apart from \<open>S_Startup\<close>, changes the multiplier of a slot that exists after the call.
\<close>

theorem C3_dist_mult_at_start:
  assumes "fmod_system st"
    and "S_LoadSound st sfx = Inr st1" and "sound (known_sfx st1 sfx) = Some s"
    and "play_results st1 (play_calls st1) = FMOD_OK"
  shows "sound_nominal_clip_dist = 1000
    \<and> (nosound st = 0 \<and> 0 \<le> numSfxThisFrame st1 \<and> numSfxThisFrame st1 \<le> 16 \<longrightarrow>
         (case S_StartSound k st entnum entchannel (Some sfx) origin fvol a of
            Inl e \<Rightarrow> False
          | Inr st' \<Rightarrow>
              map_option dist_mult (slot_get st' (fst (SND_PickSoundSlot k st1 entnum entchannel)))
                = Some (a / sound_nominal_clip_dist)
              \<and> FMOD_Channel_GetUserData st' (next_channel st1)
                = Some (fst (SND_PickSoundSlot k st1 entnum entchannel))
              \<and> (p \<noteq> fst (SND_PickSoundSlot k st1 entnum entchannel) \<longrightarrow>
                   slot_get st' p = slot_get st p)))
    \<and> (0 \<le> loopstart (known_sfx st1 sfx) \<longrightarrow>
         (case S_StaticSound k st (Some sfx) origin vol a of
            Inl e \<Rightarrow> False
          | Inr st' \<Rightarrow>
              map_option dist_mult (slot_get st' (ZoneSlot (zone_next st1)))
                = Some ((a / 64) / sound_nominal_clip_dist)
              \<and> FMOD_Channel_GetUserData st' (next_channel st1)
                = Some (ZoneSlot (zone_next st1))
              \<and> (p \<noteq> ZoneSlot (zone_next st1) \<longrightarrow> slot_get st' p = slot_get st p)))
    \<and> (\<not> writes_dist_mult c \<and> do_call k c sx = Inr sx' \<and> slot_get sx' q = Some x \<longrightarrow>
         map_option dist_mult (slot_get sx q) = Some (dist_mult x))"
proof (intro conjI impI)
  show "sound_nominal_clip_dist = 1000"
    by (simp add: sound_nominal_clip_dist_def)
next
  assume "nosound st = 0 \<and> 0 \<le> numSfxThisFrame st1 \<and> numSfxThisFrame st1 \<le> 16"
  then have h: "nosound st = 0" "0 \<le> numSfxThisFrame st1" "numSfxThisFrame st1 \<le> 16"
    by simp_all
  have other: "case S_StartSound k st entnum entchannel (Some sfx) origin fvol a of
           Inl e \<Rightarrow> False
         | Inr st' \<Rightarrow> slot_get st' p = slot_get st p"
    if "p \<noteq> fst (SND_PickSoundSlot k st1 entnum entchannel)"
    by (rule S_StartSound_other_slots [OF assms(1) h(1) assms(2-4) h(2,3) that])
  from S_StartSound_slot [OF assms(1) h(1) assms(2-4) h(2,3),
      where k = k and entnum = entnum and entchannel = entchannel and origin = origin
        and fvol = fvol and a = a] other
  show "case S_StartSound k st entnum entchannel (Some sfx) origin fvol a of
            Inl e \<Rightarrow> False
          | Inr st' \<Rightarrow>
              map_option dist_mult (slot_get st' (fst (SND_PickSoundSlot k st1 entnum entchannel)))
                = Some (a / sound_nominal_clip_dist)
              \<and> FMOD_Channel_GetUserData st' (next_channel st1)
                = Some (fst (SND_PickSoundSlot k st1 entnum entchannel))
              \<and> (p \<noteq> fst (SND_PickSoundSlot k st1 entnum entchannel) \<longrightarrow>
                   slot_get st' p = slot_get st p)"
    by (simp split: sum.splits)
next
  assume loop: "0 \<le> loopstart (known_sfx st1 sfx)"
  have other: "case S_StaticSound k st (Some sfx) origin vol a of
           Inl e \<Rightarrow> False
         | Inr st' \<Rightarrow> slot_get st' p = slot_get st p"
    if "p \<noteq> ZoneSlot (zone_next st1)"
    by (rule S_StaticSound_other_slots [OF assms(1-3) loop assms(4) that])
  from S_StaticSound_slot [OF assms(1-3) loop assms(4),
      where k = k and origin = origin and vol = vol and a = a] other
  show "case S_StaticSound k st (Some sfx) origin vol a of
            Inl e \<Rightarrow> False
          | Inr st' \<Rightarrow>
              map_option dist_mult (slot_get st' (ZoneSlot (zone_next st1)))
                = Some ((a / 64) / sound_nominal_clip_dist)
              \<and> FMOD_Channel_GetUserData st' (next_channel st1)
                = Some (ZoneSlot (zone_next st1))
              \<and> (p \<noteq> ZoneSlot (zone_next st1) \<longrightarrow> slot_get st' p = slot_get st p)"
    by (simp split: sum.splits)
next
  assume "\<not> writes_dist_mult c \<and> do_call k c sx = Inr sx' \<and> slot_get sx' q = Some x"
  then show "map_option dist_mult (slot_get sx q) = Some (dist_mult x)"
    using do_call_dist_mult [of c k sx sx'] dist_mult_kept_slot [of sx sx' q x] by simp
qed

lemma snd_playing_slot:
  "entsounds (snd_playing m) 5 1 = \<lparr>zone = False, channel = Some 0, dist_mult = m\<rparr>"
  by (simp add: snd_playing_def)

lemma snd_playing_stopped:
  "slot_get (S_StopSound quake_constants (snd_playing m) 5 1) (EntSlot 5 1)
     = Some \<lparr>zone = False, channel = None, dist_mult = m\<rparr>"
  by (simp add: S_StopSound_def quake_constants_def slot_get_def Let_def slot_upd_Ent
      chan_upd_eq fmod_channel_defs snd_playing_slot)

lemma snd_ready_picks:
  "fst (SND_PickSoundSlot quake_constants snd_ready 5 1) = EntSlot 5 1"
  "fst (SND_PickSoundSlot quake_constants (snd_playing m) 5 1) = EntSlot 5 1"
  by (simp_all add: PickSoundSlot_tracked quake_constants_def)

theorem C3_dist_mult_at_start_witness:
  "(case S_StartSound quake_constants snd_ready 5 1 (Some 4) (0, 0, 0) 1 2 of
      Inl e \<Rightarrow> False
    | Inr st' \<Rightarrow>
        map_option dist_mult (slot_get st' (EntSlot 5 1)) = Some (2 / 1000)
        \<and> slot_get st' (EntSlot 6 2) = slot_get snd_ready (EntSlot 6 2))
   \<and> (case S_StaticSound quake_constants snd_ready (Some 4) (0, 0, 0) 255 128 of
        Inl e \<Rightarrow> False
      | Inr st' \<Rightarrow>
          map_option dist_mult (slot_get st' (ZoneSlot 0)) = Some (2 / 1000)
          \<and> slot_get st' (EntSlot 6 2) = slot_get snd_ready (EntSlot 6 2))
   \<and> slot_get (S_StopSound quake_constants (snd_playing (1 / 1000)) 5 1) (EntSlot 5 1)
       = Some \<lparr>zone = False, channel = None, dist_mult = 1 / 1000\<rparr>
   \<and> map_option dist_mult (slot_get (snd_playing (1 / 1000)) (EntSlot 5 1)) = Some (1 / 1000)"
proof -
  have start: "case S_StartSound quake_constants snd_ready 5 1 (Some 4) (0, 0, 0) 1 2 of
      Inl e \<Rightarrow> False
    | Inr st' \<Rightarrow>
        map_option dist_mult (slot_get st' (EntSlot 5 1)) = Some (2 / 1000)
        \<and> slot_get st' (EntSlot 6 2) = slot_get snd_ready (EntSlot 6 2)"
    using C3_dist_mult_at_start [where st = snd_ready and sfx = 4 and ?st1.0 = snd_ready
      and s = 4 and k = quake_constants and entnum = 5 and entchannel = 1
      and origin = "(0, 0, 0)" and fvol = 1 and a = 2 and vol = 255 and p = "EntSlot 6 2"
      and c = "StopSound 5 1" and sx = "snd_playing (1 / 1000)"
      and sx' = "S_StopSound quake_constants (snd_playing (1 / 1000)) 5 1"
      and q = "EntSlot 5 1" and x = "\<lparr>zone = False, channel = None, dist_mult = 1 / 1000\<rparr>"]
    by (simp add: snd_ready_resident snd_ready_picks sound_nominal_clip_dist_def
        split: sum.splits)
  have static: "case S_StaticSound quake_constants snd_ready (Some 4) (0, 0, 0) 255 128 of
        Inl e \<Rightarrow> False
      | Inr st' \<Rightarrow>
          map_option dist_mult (slot_get st' (ZoneSlot 0)) = Some (2 / 1000)
          \<and> slot_get st' (EntSlot 6 2) = slot_get snd_ready (EntSlot 6 2)"
    using C3_dist_mult_at_start [where st = snd_ready and sfx = 4 and ?st1.0 = snd_ready
      and s = 4 and k = quake_constants and entnum = 5 and entchannel = 1
      and origin = "(0, 0, 0)" and fvol = 1 and a = 128 and vol = 255 and p = "EntSlot 6 2"
      and c = "StopSound 5 1" and sx = "snd_playing (1 / 1000)"
      and sx' = "S_StopSound quake_constants (snd_playing (1 / 1000)) 5 1"
      and q = "EntSlot 5 1" and x = "\<lparr>zone = False, channel = None, dist_mult = 1 / 1000\<rparr>"]
    by (simp add: snd_ready_resident sound_nominal_clip_dist_def split: sum.splits)
  have stop: "map_option dist_mult (slot_get (snd_playing (1 / 1000)) (EntSlot 5 1))
      = Some (1 / 1000)"
    using C3_dist_mult_at_start [where st = snd_ready and sfx = 4 and ?st1.0 = snd_ready
      and s = 4 and k = quake_constants and entnum = 5 and entchannel = 1
      and origin = "(0, 0, 0)" and fvol = 1 and a = 2 and vol = 255 and p = "EntSlot 6 2"
      and c = "StopSound 5 1" and sx = "snd_playing (1 / 1000)"
      and sx' = "S_StopSound quake_constants (snd_playing (1 / 1000)) 5 1"
      and q = "EntSlot 5 1" and x = "\<lparr>zone = False, channel = None, dist_mult = 1 / 1000\<rparr>"]
    by (simp add: snd_ready_resident snd_playing_stopped sound_nominal_clip_dist_def)
  show ?thesis
    using start static stop by (simp add: snd_playing_stopped)
qed

text \<open>
  The claim as stated fails in two ways. For a static sound with the attenuation 64 the
  multiplier is 1 / 1000, not 64 / 1000. And the multiplier of a slot of the grid is not
  set once: the slot of entity 5, channel 1, set to 1 / 1000 by a first start, is set to
  2 / 1000 by a second start with the attenuation 2.
\<close>

theorem C3_divided_by_64_and_written_again:
  "(case S_StaticSound quake_constants snd_ready (Some 4) (0, 0, 0) 255 64 of
      Inl e \<Rightarrow> False
    | Inr st' \<Rightarrow> map_option dist_mult (slot_get st' (ZoneSlot 0)) = Some (1 / 1000))
   \<and> (1 / 1000 :: real) \<noteq> 64 / 1000
   \<and> S_StartSound quake_constants snd_ready 5 1 (Some 2) (0, 0, 0) 1 1
       = Inr (snd_playing (1 / 1000))
   \<and> map_option dist_mult (slot_get (snd_playing (1 / 1000)) (EntSlot 5 1)) = Some (1 / 1000)
   \<and> (case S_StartSound quake_constants (snd_playing (1 / 1000)) 5 1 (Some 3) (0, 0, 0) 1 2 of
         Inl e \<Rightarrow> False
       | Inr st' \<Rightarrow> map_option dist_mult (slot_get st' (EntSlot 5 1)) = Some (2 / 1000))
   \<and> (1 / 1000 :: real) \<noteq> 2 / 1000"
proof -
  have static: "case S_StaticSound quake_constants snd_ready (Some 4) (0, 0, 0) 255 64 of
      Inl e \<Rightarrow> False
    | Inr st' \<Rightarrow> map_option dist_mult (slot_get st' (ZoneSlot 0)) = Some (1 / 1000)"
    using S_StaticSound_slot [where st = snd_ready and sfx = 4 and ?st1.0 = snd_ready
      and s = 4 and k = quake_constants and origin = "(0, 0, 0)" and vol = 255 and a = 64]
    by (simp add: snd_ready_resident sound_nominal_clip_dist_def split: sum.splits)
  have again: "case S_StartSound quake_constants (snd_playing (1 / 1000)) 5 1 (Some 3)
                      (0, 0, 0) 1 2 of
         Inl e \<Rightarrow> False
       | Inr st' \<Rightarrow> map_option dist_mult (slot_get st' (EntSlot 5 1)) = Some (2 / 1000)"
    using S_StartSound_slot [where st = "snd_playing (1 / 1000)" and sfx = 3
      and ?st1.0 = "snd_playing (1 / 1000)" and s = 3 and k = quake_constants and entnum = 5
      and entchannel = 1 and origin = "(0, 0, 0)" and fvol = 1 and a = 2]
    by (simp add: snd_playing_resident snd_ready_picks sound_nominal_clip_dist_def
        split: sum.splits)
  show ?thesis
    using static again
    by (simp add: snd_ready_first_start slot_get_def snd_playing_slot)
qed

end
